theory Spec2Isabelle
  imports Complex_Main "HOL-Library.Multiset" "HOL-Library.Sublist" "HOL-Library.Word"
begin

section \<open>JavaScript values\<close>

text \<open>
  The panel (\<open>src/App.tsx\<close>) reads device attributes of type \<open>Record<string, unknown>\<close>
  that come out of \<open>response.json()\<close>. A value is therefore a JSON value, or \<open>undefined\<close>
  when a property is missing. A JavaScript number is an IEEE double: a finite value, one of
  the two infinities, or NaN. A finite double is represented by the rational it denotes
  (the sign of zero is not represented).

  Strings are \<open>string\<close>, read as the UTF-8 bytes of the JavaScript string.
\<close>

datatype jsnum = Fin rat | PosInf | NegInf | NaN

datatype jsval =
    JUndefined
  | JNull
  | JBool bool
  | JNum jsnum
  | JStr string
  | JArr "jsval list"
  | JObj "(string \<times> jsval) list"

text \<open>\<open>Number.isFinite\<close> on a value whose \<open>typeof\<close> is \<open>'number'\<close>.\<close>

fun isFinite :: "jsnum \<Rightarrow> bool" where
  "isFinite (Fin q) = True"
| "isFinite PosInf = False"
| "isFinite NegInf = False"
| "isFinite NaN = False"

subsection \<open>\<open>String.prototype.trim\<close>\<close>

text \<open>
  ECMAScript strips \<open>WhiteSpace\<close> and \<open>LineTerminator\<close> code points from both ends:
  U+0009..U+000D, U+0020, U+00A0, U+1680, U+2000..U+200A, U+2028, U+2029, U+202F, U+205F,
  U+3000 and U+FEFF. They are listed here by their UTF-8 encodings.
\<close>

definition whiteSpace :: "string list" where
  "whiteSpace =
    [[CHR 0x09], [CHR 0x0A], [CHR 0x0B], [CHR 0x0C], [CHR 0x0D], [CHR 0x20],
     [CHR 0xC2, CHR 0xA0],
     [CHR 0xE1, CHR 0x9A, CHR 0x80],
     [CHR 0xE2, CHR 0x80, CHR 0x80], [CHR 0xE2, CHR 0x80, CHR 0x81],
     [CHR 0xE2, CHR 0x80, CHR 0x82], [CHR 0xE2, CHR 0x80, CHR 0x83],
     [CHR 0xE2, CHR 0x80, CHR 0x84], [CHR 0xE2, CHR 0x80, CHR 0x85],
     [CHR 0xE2, CHR 0x80, CHR 0x86], [CHR 0xE2, CHR 0x80, CHR 0x87],
     [CHR 0xE2, CHR 0x80, CHR 0x88], [CHR 0xE2, CHR 0x80, CHR 0x89],
     [CHR 0xE2, CHR 0x80, CHR 0x8A],
     [CHR 0xE2, CHR 0x80, CHR 0xA8], [CHR 0xE2, CHR 0x80, CHR 0xA9],
     [CHR 0xE2, CHR 0x80, CHR 0xAF],
     [CHR 0xE2, CHR 0x81, CHR 0x9F],
     [CHR 0xE3, CHR 0x80, CHR 0x80],
     [CHR 0xEF, CHR 0xBB, CHR 0xBF]]"

text \<open>
  \<open>stripWs ws s\<close> removes from the front of \<open>s\<close> every byte sequence of the table \<open>ws\<close>
  (sequences of one, two or three bytes).
\<close>

fun stripWs :: "string list \<Rightarrow> string \<Rightarrow> string" where
  "stripWs ws [] = []"
| "stripWs ws (a # s) =
    (if [a] \<in> set ws then stripWs ws s
     else case s of
         [] \<Rightarrow> [a]
       | b # t \<Rightarrow>
           if [a, b] \<in> set ws then stripWs ws t
           else (case t of
                   [] \<Rightarrow> [a, b]
                 | c # u \<Rightarrow> if [a, b, c] \<in> set ws then stripWs ws u else a # b # c # u))"

definition trimStart :: "string \<Rightarrow> string" where
  "trimStart s = stripWs whiteSpace s"

definition trimEnd :: "string \<Rightarrow> string" where
  "trimEnd s = rev (stripWs (map rev whiteSpace) (rev s))"

definition trim :: "string \<Rightarrow> string" where
  "trim s = trimEnd (trimStart s)"

subsection \<open>\<open>Number(string)\<close>\<close>

text \<open>
  ECMAScript's \<open>StringToNumber\<close>: the trimmed string is empty (value 0), a binary, octal or
  hexadecimal integer literal, or an optionally signed decimal literal or \<open>Infinity\<close>;
  anything else is NaN. The mathematical value of a literal is rounded to the nearest
  double, ties to even: the result is the double the engine returns, an infinity when the
  value is too large and 0 when it is too small.
\<close>

definition digitOf :: "char \<Rightarrow> nat" where
  "digitOf c =
    (let n = (of_char c :: nat) in
     if 48 \<le> n \<and> n \<le> 57 then n - 48
     else if 97 \<le> n \<and> n \<le> 102 then n - 87
     else if 65 \<le> n \<and> n \<le> 70 then n - 55
     else 99)"

definition allDigits :: "nat \<Rightarrow> string \<Rightarrow> bool" where
  "allDigits base s = (s \<noteq> [] \<and> list_all (\<lambda>c. digitOf c < base) s)"

definition digitsValue :: "nat \<Rightarrow> string \<Rightarrow> nat" where
  "digitsValue base s = foldl (\<lambda>n c. base * n + digitOf c) 0 s"

function bitLength :: "nat \<Rightarrow> nat" where
  "bitLength n = (if n = 0 then 0 else Suc (bitLength (n div 2)))"
  by pat_completeness auto
termination
  by (relation "measure id") auto

declare bitLength.simps [simp del]

definition pow2 :: "int \<Rightarrow> rat" where
  "pow2 e = (if 0 \<le> e then 2 ^ nat e else 1 / 2 ^ nat (- e))"

definition roundHalfEven :: "rat \<Rightarrow> int" where
  "roundHalfEven x =
    (let f = \<lfloor>x\<rfloor>; r = x - of_int f in
     if r < 1 / 2 then f
     else if 1 / 2 < r then f + 1
     else if even f then f else f + 1)"

text \<open>
  The Number value for the non-negative rational \<open>n / d\<close> (\<open>d > 0\<close>): with \<open>e\<close> the binary
  exponent of the value (\<open>2^e \<le> n / d < 2^(e+1)\<close>), doubles near it are the multiples of
  \<open>2^(e - 52)\<close>, or of \<open>2^(-1074)\<close> in the subnormal range; the value is rounded to the
  nearest multiple, and a result of \<open>2^1024\<close> or more is \<open>Infinity\<close>.
\<close>

definition numberValue :: "nat \<Rightarrow> nat \<Rightarrow> jsnum" where
  "numberValue n d =
    (if n = 0 then Fin 0
     else
       let a = (of_nat n :: rat) / of_nat d;
           k = int (bitLength n) - int (bitLength d);
           e = (if pow2 k \<le> a then k else k - 1);
           ulp = pow2 (max e (- 1022) - 52);
           r = of_int (roundHalfEven (a / ulp)) * ulp
       in if 2 ^ 1024 \<le> r then PosInf else Fin r)"

fun negate :: "jsnum \<Rightarrow> jsnum" where
  "negate (Fin q) = Fin (- q)"
| "negate PosInf = NegInf"
| "negate NegInf = PosInf"
| "negate NaN = NaN"

definition signedInteger :: "string \<Rightarrow> int option" where
  "signedInteger s =
    (case s of
       [] \<Rightarrow> None
     | c # d \<Rightarrow>
         if c = CHR ''+'' then (if allDigits 10 d then Some (int (digitsValue 10 d)) else None)
         else if c = CHR ''-'' then (if allDigits 10 d then Some (- int (digitsValue 10 d)) else None)
         else if allDigits 10 s then Some (int (digitsValue 10 s)) else None)"

text \<open>
  A decimal literal with integer digits \<open>ip\<close>, fraction digits \<open>fp\<close> and exponent \<open>e\<close> has
  the value \<open>m * 10^(e - length fp)\<close>, where \<open>m\<close> is the number written \<open>ip fp\<close>.
\<close>

definition decimalValue :: "nat \<Rightarrow> int \<Rightarrow> jsnum" where
  "decimalValue m e =
    (if 0 \<le> e then numberValue (m * 10 ^ nat e) 1 else numberValue m (10 ^ nat (- e)))"

definition unsignedDecimal :: "string \<Rightarrow> jsnum option" where
  "unsignedDecimal s =
    (if s = ''Infinity'' then Some PosInf
     else
       let m = takeWhile (\<lambda>c. c \<noteq> CHR ''e'' \<and> c \<noteq> CHR ''E'') s;
           x = drop (length m) s;
           ip = takeWhile (\<lambda>c. c \<noteq> CHR ''.'') m;
           fp = drop (Suc (length ip)) m
       in if (ip \<noteq> [] \<and> \<not> allDigits 10 ip) \<or> (fp \<noteq> [] \<and> \<not> allDigits 10 fp)
             \<or> (ip = [] \<and> fp = [])
          then None
          else case (if x = [] then Some 0 else signedInteger (tl x)) of
                 None \<Rightarrow> None
               | Some e \<Rightarrow>
                   Some (decimalValue (digitsValue 10 (ip @ fp)) (e - int (length fp))))"

definition strDecimalLiteral :: "string \<Rightarrow> jsnum option" where
  "strDecimalLiteral s =
    (case s of
       [] \<Rightarrow> None
     | c # r \<Rightarrow>
         if c = CHR ''+'' then unsignedDecimal r
         else if c = CHR ''-'' then map_option negate (unsignedDecimal r)
         else unsignedDecimal s)"

definition nonDecimalInteger :: "string \<Rightarrow> jsnum option" where
  "nonDecimalInteger s =
    (let p = take 2 s; d = drop 2 s in
     if (p = ''0x'' \<or> p = ''0X'') \<and> allDigits 16 d then Some (numberValue (digitsValue 16 d) 1)
     else if (p = ''0o'' \<or> p = ''0O'') \<and> allDigits 8 d then Some (numberValue (digitsValue 8 d) 1)
     else if (p = ''0b'' \<or> p = ''0B'') \<and> allDigits 2 d then Some (numberValue (digitsValue 2 d) 1)
     else None)"

definition StringToNumber :: "string \<Rightarrow> jsnum" where
  "StringToNumber s =
    (let t = trim s in
     if t = [] then Fin 0
     else case nonDecimalInteger t of
            Some v \<Rightarrow> v
          | None \<Rightarrow> (case strDecimalLiteral t of Some v \<Rightarrow> v | None \<Rightarrow> NaN))"

section \<open>Numeric coercion: \<open>toNumber\<close>\<close>

text \<open>
  \<^verbatim>\<open>
  const toNumber = (value: unknown, fallback: number) => {
    if (typeof value === 'number' && Number.isFinite(value)) return value
    if (typeof value === 'string' && value.trim().length > 0) {
      const parsed = Number(value)
      if (Number.isFinite(parsed)) return parsed
    }
    return fallback
  }
  \<close>
\<close>

definition toNumber :: "jsval \<Rightarrow> jsnum \<Rightarrow> jsnum" where
  "toNumber v fallback =
    (case v of
       JNum n \<Rightarrow> if isFinite n then n else fallback
     | JStr s \<Rightarrow>
         if length (trim s) > 0
         then (let parsed = StringToNumber s in if isFinite parsed then parsed else fallback)
         else fallback
     | _ \<Rightarrow> fallback)"

section \<open>Colour rendering: \<open>rgbToHex\<close>\<close>

text \<open>
  \<open>Math.min\<close> and \<open>Math.max\<close> of two numbers: NaN if either argument is NaN, otherwise
  the smaller (larger) one.
\<close>

fun jsLess :: "jsnum \<Rightarrow> jsnum \<Rightarrow> bool" where
  "jsLess (Fin p) (Fin q) = (p < q)"
| "jsLess (Fin p) PosInf = True"
| "jsLess NegInf (Fin q) = True"
| "jsLess NegInf PosInf = True"
| "jsLess a b = False"

definition Math_min :: "jsnum \<Rightarrow> jsnum \<Rightarrow> jsnum" where
  "Math_min a b = (if a = NaN \<or> b = NaN then NaN else if jsLess b a then b else a)"

definition Math_max :: "jsnum \<Rightarrow> jsnum \<Rightarrow> jsnum" where
  "Math_max a b = (if a = NaN \<or> b = NaN then NaN else if jsLess a b then b else a)"

text \<open>
  \<open>Number.prototype.toString(16)\<close>. The integer part is written in lowercase hexadecimal
  digits. For a number with a fractional part ECMAScript leaves the digits to the
  implementation; the exact expansion is used here (it is finite for every double, and
  has at most 269 digits).
\<close>

definition hexDigit :: "nat \<Rightarrow> char" where
  "hexDigit n = ''0123456789abcdef'' ! (n mod 16)"

function hexNat :: "nat \<Rightarrow> string" where
  "hexNat n = (if n < 16 then [hexDigit n] else hexNat (n div 16) @ [hexDigit (n mod 16)])"
  by pat_completeness auto
termination
  by (relation "measure id") auto

declare hexNat.simps [simp del]

fun hexFrac :: "nat \<Rightarrow> rat \<Rightarrow> string" where
  "hexFrac 0 f = []"
| "hexFrac (Suc n) f =
    (if f = 0 then []
     else hexDigit (nat \<lfloor>16 * f\<rfloor>) # hexFrac n (16 * f - of_int \<lfloor>16 * f\<rfloor>))"

definition toString16 :: "jsnum \<Rightarrow> string" where
  "toString16 x =
    (case x of
       NaN \<Rightarrow> ''NaN''
     | PosInf \<Rightarrow> ''Infinity''
     | NegInf \<Rightarrow> ''-Infinity''
     | Fin q \<Rightarrow>
         (if q < 0 then ''-'' else [])
         @ hexNat (nat \<lfloor>\<bar>q\<bar>\<rfloor>)
         @ (if \<bar>q\<bar> = of_int \<lfloor>\<bar>q\<bar>\<rfloor> then []
            else ''.'' @ hexFrac 269 (\<bar>q\<bar> - of_int \<lfloor>\<bar>q\<bar>\<rfloor>)))"

text \<open>\<open>s.padStart(2, '0')\<close>\<close>

definition padStart2 :: "string \<Rightarrow> string" where
  "padStart2 s = replicate (2 - length s) (CHR ''0'') @ s"

text \<open>
  \<^verbatim>\<open>
  const rgbToHex = (rgb?: unknown) => {
    if (!Array.isArray(rgb) || rgb.length < 3) return '#ffffff'
    const [r, g, b] = rgb
    const toHex = (value: unknown) => {
      const num = Math.max(0, Math.min(255, toNumber(value, 255)))
      return num.toString(16).padStart(2, '0')
    }
    return `#${toHex(r)}${toHex(g)}${toHex(b)}`
  }
  \<close>
\<close>

definition toHex :: "jsval \<Rightarrow> string" where
  "toHex v = (let num = Math_max (Fin 0) (Math_min (Fin 255) (toNumber v (Fin 255)))
              in padStart2 (toString16 num))"

definition rgbToHex :: "jsval \<Rightarrow> string" where
  "rgbToHex rgb =
    (case rgb of
       JArr (r # g # b # rest) \<Rightarrow> ''#'' @ toHex r @ toHex g @ toHex b
     | _ \<Rightarrow> ''#ffffff'')"

section \<open>Devices\<close>

text \<open>
  \<open>attributes\<close> is the property read of the attribute bag: a missing key (or a missing
  bag, read through \<open>?.\<close>) gives \<open>undefined\<close>.
\<close>

record HaEntity =
  entity_id :: string
  state :: string
  attributes :: "string \<Rightarrow> jsval"

record LightControlState =
  brightness :: jsnum
  color :: string
  colorTemp :: jsnum

record ClimateControlState =
  temperature :: jsnum
  hvacMode :: string

subsection \<open>Capability inference: \<open>getLightCapabilities\<close>\<close>

record LightCapabilities =
  supportsColor :: bool
  supportsColorTemp :: bool

text \<open>\<open>supported.includes(x)\<close> for a string \<open>x\<close>.\<close>

definition arrayIncludes :: "jsval list \<Rightarrow> string \<Rightarrow> bool" where
  "arrayIncludes xs x = (JStr x \<in> set xs)"

definition getLightCapabilities :: "HaEntity \<Rightarrow> LightCapabilities" where
  "getLightCapabilities entity =
    (let supported = (case attributes entity ''supported_color_modes'' of
                        JArr xs \<Rightarrow> xs | _ \<Rightarrow> []);
         colorMode = (case attributes entity ''color_mode'' of
                        JStr s \<Rightarrow> s | _ \<Rightarrow> [])
     in \<lparr> supportsColor =
            (arrayIncludes supported ''rgb'' \<or>
             arrayIncludes supported ''hs'' \<or>
             arrayIncludes supported ''rgbw'' \<or>
             arrayIncludes supported ''rgbww'' \<or>
             arrayIncludes supported ''xy'' \<or>
             colorMode = ''rgb'' \<or>
             colorMode = ''hs'' \<or>
             colorMode = ''xy''),
          supportsColorTemp =
            (arrayIncludes supported ''color_temp'' \<or>
             arrayIncludes supported ''kelvin'' \<or>
             colorMode = ''color_temp'' \<or>
             colorMode = ''kelvin'') \<rparr>)"

subsection \<open>Control-state bootstrap\<close>

text \<open>
  \<^verbatim>\<open>
  setLightControls((prev) => {
    const next = { ...prev }
    entities
      .filter((entity) => entity.entity_id.startsWith('light.'))
      .forEach((entity) => {
        if (!next[entity.entity_id]) {
          const brightness = toNumber(entity.attributes?.brightness, 180)
          const color = rgbToHex(entity.attributes?.rgb_color)
          const colorTemp = toNumber(entity.attributes?.color_temp, 300)
          next[entity.entity_id] = { brightness, color, colorTemp }
        }
      })
    return next
  })
  \<close>
  A control-state table is a map from identifiers to control states; an entry is an
  object, hence truthy, so \<open>!next[id]\<close> holds exactly when the key is absent.
\<close>

definition seedLight :: "HaEntity \<Rightarrow> LightControlState" where
  "seedLight entity =
    \<lparr> brightness = toNumber (attributes entity ''brightness'') (Fin 180),
      color = rgbToHex (attributes entity ''rgb_color''),
      colorTemp = toNumber (attributes entity ''color_temp'') (Fin 300) \<rparr>"

definition ensureLight ::
  "(string \<rightharpoonup> LightControlState) \<Rightarrow> HaEntity \<Rightarrow> (string \<rightharpoonup> LightControlState)" where
  "ensureLight next entity =
    (if next (entity_id entity) = None
     then next(entity_id entity \<mapsto> seedLight entity)
     else next)"

definition lightControlsUpdater ::
  "HaEntity list \<Rightarrow> (string \<rightharpoonup> LightControlState) \<Rightarrow> (string \<rightharpoonup> LightControlState)" where
  "lightControlsUpdater entities prev =
    foldl ensureLight prev (filter (\<lambda>entity. prefix ''light.'' (entity_id entity)) entities)"

definition seedClimate :: "HaEntity \<Rightarrow> ClimateControlState" where
  "seedClimate entity =
    \<lparr> temperature =
        toNumber (attributes entity ''temperature'')
          (toNumber (attributes entity ''current_temperature'') (Fin 22)),
      hvacMode = (case attributes entity ''hvac_mode'' of JStr s \<Rightarrow> s | _ \<Rightarrow> ''auto'') \<rparr>"

definition ensureClimate ::
  "(string \<rightharpoonup> ClimateControlState) \<Rightarrow> HaEntity \<Rightarrow> (string \<rightharpoonup> ClimateControlState)" where
  "ensureClimate next entity =
    (if next (entity_id entity) = None
     then next(entity_id entity \<mapsto> seedClimate entity)
     else next)"

definition climateControlsUpdater ::
  "HaEntity list \<Rightarrow> (string \<rightharpoonup> ClimateControlState) \<Rightarrow> (string \<rightharpoonup> ClimateControlState)" where
  "climateControlsUpdater entities prev =
    foldl ensureClimate prev (filter (\<lambda>entity. prefix ''climate.'' (entity_id entity)) entities)"

section \<open>Entity order\<close>

text \<open>
  \<^verbatim>\<open>
  useEffect(() => {
    if (entities.length === 0) return
    setEntityOrder((prev) => {
      const known = new Set(prev)
      const next = [...prev]
      entities.forEach((entity) => {
        if (!known.has(entity.entity_id)) {
          next.push(entity.entity_id)
        }
      })
      return next
    })
  }, [entities])
  \<close>
  \<open>known\<close> is built once from \<open>prev\<close> and is not extended inside the loop.
\<close>

definition pushUnknown :: "string set \<Rightarrow> string list \<Rightarrow> HaEntity \<Rightarrow> string list" where
  "pushUnknown known next entity =
    (if entity_id entity \<notin> known then next @ [entity_id entity] else next)"

definition entityOrderUpdater :: "HaEntity list \<Rightarrow> string list \<Rightarrow> string list" where
  "entityOrderUpdater entities prev = foldl (pushUnknown (set prev)) prev entities"

definition entityOrderEffect :: "HaEntity list \<Rightarrow> string list \<Rightarrow> string list" where
  "entityOrderEffect entities prev =
    (if length entities = 0 then prev else entityOrderUpdater entities prev)"

section \<open>Ordering and visibility\<close>








section \<open>The component state\<close>

text \<open>The \<open>useState\<close> cells of \<open>App\<close> that the synchronisation logic reads or writes.\<close>

record Panel =
  haUrl :: string
  token :: string
  entities :: "HaEntity list"
  hiddenEntities :: "string list"
  nameOverrides :: "(string \<times> string) list"
  categoryMap :: "(string \<times> string) list"
  entityOrder :: "string list"
  customCategories :: "string list"
  lightControls :: "string \<rightharpoonup> LightControlState"
  climateControls :: "string \<rightharpoonup> ClimateControlState"
  passwordHash :: string
  settingsUnlocked :: bool
  passwordInput :: string
  newPassword :: string
  settingsError :: string
  storageError :: string
  settingsLoaded :: bool

text \<open>\<open>const connectionReady = Boolean(token && (envProxy || haUrl))\<close>\<close>

definition connectionReady :: "bool \<Rightarrow> Panel \<Rightarrow> bool" where
  "connectionReady envProxy p = (token p \<noteq> [] \<and> (envProxy \<or> haUrl p \<noteq> []))"

section \<open>Transport: \<open>apiFetch\<close>\<close>

text \<open>The customization document, as the body of \<open>PUT /studio_panel/settings\<close>.\<close>

record SettingsDoc =
  doc_haUrl :: string
  doc_haToken :: string
  doc_hiddenEntities :: "string list"
  doc_nameOverrides :: "(string \<times> string) list"
  doc_categoryMap :: "(string \<times> string) list"
  doc_entityOrder :: "string list"
  doc_customCategories :: "string list"
  doc_passwordHash :: string

record Request =
  req_method :: string
  req_url :: string
  req_authorization :: string
  req_body :: "SettingsDoc option"

text \<open>
  What the network does with a request: \<open>fetch\<close> rejects with a message, or answers with
  a status, the body as text, and the outcome of reading the body as JSON (\<open>Inl m\<close>: the
  body cannot be read as the expected JSON, with error message \<open>m\<close>).
\<close>

datatype 'a fetch_outcome =
    FetchRejects string
  | FetchResponds nat string "string + 'a"

text \<open>The status as the template literal renders it: its decimal digits.\<close>

function decimal :: "nat \<Rightarrow> string" where
  "decimal n = (if n < 10 then [hexDigit n] else decimal (n div 10) @ [hexDigit (n mod 10)])"
  by pat_completeness auto
termination
  by (relation "measure id") auto

declare decimal.simps [simp del]

text \<open>\<open>haUrl.replace(/\/$/, '')\<close>\<close>

definition stripTrailingSlash :: "string \<Rightarrow> string" where
  "stripTrailingSlash s = (if s \<noteq> [] \<and> last s = CHR ''/'' then butlast s else s)"

definition settingsApiPath :: string where
  "settingsApiPath = ''/studio_panel/settings''"

text \<open>
  \<^verbatim>\<open>
  const apiFetch = useCallback(async (path: string, options?: RequestInit) => {
    if (!token || (!envProxy && !haUrl)) {
      throw new Error('Enter Home Assistant URL and token.')
    }
    const baseUrl = envProxy ? '' : haUrl.replace(/\/$/, '')
    const response = await fetch(`${baseUrl}/api${path}`, { ...options, headers: { ... } })
    if (!response.ok) {
      const message = await response.text()
      throw new Error(message || `Request failed (${response.status})`)
    }
    return response.json()
  }, [haUrl, token])
  \<close>
  The result is the list of requests sent and the outcome of the promise: \<open>Inl m\<close> when it
  rejects with an error of message \<open>m\<close>, \<open>Inr v\<close> when it resolves to \<open>v\<close>. The first
  argument \<open>p\<close> is the render whose \<open>haUrl\<close> and \<open>token\<close> the callback closes over.
\<close>

definition apiFetch ::
  "bool \<Rightarrow> Panel \<Rightarrow> string \<Rightarrow> string \<Rightarrow> SettingsDoc option \<Rightarrow> 'a fetch_outcome
     \<Rightarrow> Request list \<times> (string + 'a)" where
  "apiFetch envProxy p path meth payload outcome =
    (if token p = [] \<or> (\<not> envProxy \<and> haUrl p = [])
     then ([], Inl ''Enter Home Assistant URL and token.'')
     else
       let baseUrl = (if envProxy then [] else stripTrailingSlash (haUrl p));
           request = \<lparr> req_method = meth, req_url = baseUrl @ ''/api'' @ path,
                       req_authorization = ''Bearer '' @ token p,
                       req_body = payload \<rparr>
       in ([request],
           case outcome of
             FetchRejects m \<Rightarrow> Inl m
           | FetchResponds status text json \<Rightarrow>
               if \<not> (200 \<le> status \<and> status \<le> 299)
               then Inl (if text \<noteq> [] then text
                         else ''Request failed ('' @ decimal status @ '')'')
               else json))"

section \<open>Loading and persisting the settings\<close>

text \<open>
  The parsed body of \<open>GET /studio_panel/settings\<close>. A field is \<open>Some\<close> when it passes the
  test \<open>loadPanelSettings\<close> applies to it (\<open>typeof ... === 'string'\<close>, \<open>Array.isArray\<close>,
  a non-null object) and \<open>None\<close> otherwise; the elements are taken at the types the source
  casts them to.
\<close>

record StoredSettings =
  stored_haUrl :: "string option"
  stored_haToken :: "string option"
  stored_hiddenEntities :: "string list option"
  stored_nameOverrides :: "(string \<times> string) list option"
  stored_categoryMap :: "(string \<times> string) list option"
  stored_entityOrder :: "string list option"
  stored_customCategories :: "string list option"
  stored_passwordHash :: "string option"

definition orElse :: "'a option \<Rightarrow> 'a \<Rightarrow> 'a" where
  "orElse x d = (case x of None \<Rightarrow> d | Some v \<Rightarrow> v)"

text \<open>
  \<open>loadPanelSettings\<close>: \<open>c\<close> is the render the callback closes over, \<open>p\<close> the state its
  setters are applied to when the response arrives.
  \<^verbatim>\<open>
    if (!connectionReady) return
    try {
      const parsed = (await apiFetch(settingsApiPath)) as Record<string, unknown>
      const storedUrl = typeof parsed.haUrl === 'string' ? parsed.haUrl : ''
      const storedToken = typeof parsed.haToken === 'string' ? parsed.haToken : ''
      if (storedUrl && !haUrl) setHaUrl(storedUrl)
      if (storedToken && !token) setToken(storedToken)
      setHiddenEntities(...) ... setPasswordHash(...)
      setSettingsLoaded(true)
      setStorageError('')
    } catch (err) {
      setStorageError(err instanceof Error ? err.message : 'Unable to load settings')
    }
  \<close>
\<close>

definition loadPanelSettings ::
  "bool \<Rightarrow> Panel \<Rightarrow> StoredSettings fetch_outcome \<Rightarrow> Panel \<Rightarrow> Request list \<times> Panel" where
  "loadPanelSettings envProxy c outcome p =
    (if \<not> connectionReady envProxy c then ([], p)
     else case apiFetch envProxy c settingsApiPath ''GET'' None outcome of
         (sent, Inl message) \<Rightarrow> (sent, p\<lparr> storageError := message \<rparr>)
       | (sent, Inr parsed) \<Rightarrow>
           let storedUrl = orElse (stored_haUrl parsed) [];
               storedToken = orElse (stored_haToken parsed) []
           in (sent,
               p\<lparr> haUrl := (if storedUrl \<noteq> [] \<and> haUrl c = [] then storedUrl else haUrl p),
                  token := (if storedToken \<noteq> [] \<and> token c = [] then storedToken else token p),
                  hiddenEntities := orElse (stored_hiddenEntities parsed) [],
                  nameOverrides := orElse (stored_nameOverrides parsed) [],
                  categoryMap := orElse (stored_categoryMap parsed) [],
                  entityOrder := orElse (stored_entityOrder parsed) [],
                  customCategories := orElse (stored_customCategories parsed) [],
                  passwordHash := orElse (stored_passwordHash parsed) [],
                  settingsLoaded := True,
                  storageError := [] \<rparr>))"

text \<open>The optional argument \<open>next\<close> of \<open>persistPanelSettings\<close>: the fields it overrides.\<close>

record SettingsPatch =
  next_haUrl :: "string option"
  next_haToken :: "string option"
  next_hiddenEntities :: "string list option"
  next_nameOverrides :: "(string \<times> string) list option"
  next_categoryMap :: "(string \<times> string) list option"
  next_entityOrder :: "string list option"
  next_customCategories :: "string list option"
  next_passwordHash :: "string option"

definition noPatch :: SettingsPatch where
  "noPatch = \<lparr> next_haUrl = None, next_haToken = None, next_hiddenEntities = None,
              next_nameOverrides = None, next_categoryMap = None, next_entityOrder = None,
              next_customCategories = None, next_passwordHash = None \<rparr>"

text \<open>
  \<^verbatim>\<open>
      if (!connectionReady || !settingsLoaded) return
      const payload = {
        haUrl, haToken: token, hiddenEntities, nameOverrides, categoryMap,
        entityOrder, customCategories, passwordHash, ...next,
      }
      await apiFetch(settingsApiPath, { method: 'PUT', body: JSON.stringify(payload) })
  \<close>
  There is no \<open>try\<close>/\<open>catch\<close>: a failure of \<open>apiFetch\<close> rejects the returned promise.
\<close>

definition payloadOf :: "Panel \<Rightarrow> SettingsPatch \<Rightarrow> SettingsDoc" where
  "payloadOf c nxt =
    \<lparr> doc_haUrl = orElse (next_haUrl nxt) (haUrl c),
      doc_haToken = orElse (next_haToken nxt) (token c),
      doc_hiddenEntities = orElse (next_hiddenEntities nxt) (hiddenEntities c),
      doc_nameOverrides = orElse (next_nameOverrides nxt) (nameOverrides c),
      doc_categoryMap = orElse (next_categoryMap nxt) (categoryMap c),
      doc_entityOrder = orElse (next_entityOrder nxt) (entityOrder c),
      doc_customCategories = orElse (next_customCategories nxt) (customCategories c),
      doc_passwordHash = orElse (next_passwordHash nxt) (passwordHash c) \<rparr>"

definition persistPanelSettings ::
  "bool \<Rightarrow> Panel \<Rightarrow> SettingsPatch \<Rightarrow> unit fetch_outcome \<Rightarrow> Request list \<times> (string + unit)" where
  "persistPanelSettings envProxy c nxt outcome =
    (if \<not> connectionReady envProxy c \<or> \<not> settingsLoaded c then ([], Inr ())
     else apiFetch envProxy c settingsApiPath ''PUT'' (Some (payloadOf c nxt)) outcome)"

subsection \<open>The save debounce and the event loop\<close>

text \<open>
  \<^verbatim>\<open>
  useEffect(() => {
    if (!connectionReady || !settingsLoaded) return
    if (saveDebounceRef.current) {
      window.clearTimeout(saveDebounceRef.current)
    }
    saveDebounceRef.current = window.setTimeout(() => {
      void persistPanelSettings()
    }, 500)
  }, [categoryMap, connectionReady, ..., persistPanelSettings])
  \<close>
  The pending timeout is represented by the render its callback closes over. When the
  guard fails the effect returns before \<open>clearTimeout\<close>, so a pending timeout stays.
\<close>

definition saveDebounceEffect :: "bool \<Rightarrow> Panel \<Rightarrow> Panel option \<Rightarrow> Panel option" where
  "saveDebounceEffect envProxy p pending =
    (if \<not> connectionReady envProxy p \<or> \<not> settingsLoaded p then pending else Some p)"

record World =
  panel :: Panel
  saveDebounceRef :: "Panel option"
  requests :: "Request list"

text \<open>Mutations of the customization mirror: the setters of the persisted cells.\<close>

datatype Mutation =
    SetHaUrl string
  | SetToken string
  | SetHiddenEntities "string list"
  | SetNameOverrides "(string \<times> string) list"
  | SetCategoryMap "(string \<times> string) list"
  | SetEntityOrder "string list"
  | SetCustomCategories "string list"
  | SetPasswordHash string

fun mutate :: "Mutation \<Rightarrow> Panel \<Rightarrow> Panel" where
  "mutate (SetHaUrl v) p = p\<lparr> haUrl := v \<rparr>"
| "mutate (SetToken v) p = p\<lparr> token := v \<rparr>"
| "mutate (SetHiddenEntities v) p = p\<lparr> hiddenEntities := v \<rparr>"
| "mutate (SetNameOverrides v) p = p\<lparr> nameOverrides := v \<rparr>"
| "mutate (SetCategoryMap v) p = p\<lparr> categoryMap := v \<rparr>"
| "mutate (SetEntityOrder v) p = p\<lparr> entityOrder := v \<rparr>"
| "mutate (SetCustomCategories v) p = p\<lparr> customCategories := v \<rparr>"
| "mutate (SetPasswordHash v) p = p\<lparr> passwordHash := v \<rparr>"

text \<open>
  Events of the single-threaded event loop:
  \<^item> \<open>Mutate m\<close>: a setter runs; the component renders again and the save-debounce
    effect runs in the new render;
  \<^item> \<open>SaveTimerFires outcome\<close>: the pending timeout, if any, fires and calls
    \<open>void persistPanelSettings()\<close>; the promise is discarded, so neither its value nor
    its rejection reaches the state;
  \<^item> \<open>LoadSettings c outcome\<close>: a call of \<open>loadPanelSettings\<close> made in render \<open>c\<close>
    completes; its setters run, then the save-debounce effect.
\<close>

datatype Event =
    Mutate Mutation
  | SaveTimerFires "unit fetch_outcome"
  | LoadSettings Panel "StoredSettings fetch_outcome"

fun step :: "bool \<Rightarrow> World \<Rightarrow> Event \<Rightarrow> World" where
  "step envProxy w (Mutate m) =
    (let p = mutate m (panel w)
     in w\<lparr> panel := p, saveDebounceRef := saveDebounceEffect envProxy p (saveDebounceRef w) \<rparr>)"
| "step envProxy w (SaveTimerFires outcome) =
    (case saveDebounceRef w of
       None \<Rightarrow> w
     | Some c \<Rightarrow>
         w\<lparr> saveDebounceRef := None,
            requests := requests w @ fst (persistPanelSettings envProxy c noPatch outcome) \<rparr>)"
| "step envProxy w (LoadSettings c outcome) =
    (let (sent, p) = loadPanelSettings envProxy c outcome (panel w)
     in w\<lparr> panel := p,
           saveDebounceRef := saveDebounceEffect envProxy p (saveDebounceRef w),
           requests := requests w @ sent \<rparr>)"

definition run :: "bool \<Rightarrow> World \<Rightarrow> Event list \<Rightarrow> World" where
  "run envProxy w events = foldl (step envProxy) w events"

text \<open>The first render: \<open>useState\<close> initial values, with \<open>envUrl ?? ''\<close> and \<open>envToken ?? ''\<close>.\<close>

definition initialPanel :: "string \<Rightarrow> string \<Rightarrow> Panel" where
  "initialPanel envUrl envToken =
    \<lparr> haUrl = envUrl, token = envToken, entities = [], hiddenEntities = [],
      nameOverrides = [], categoryMap = [], entityOrder = [], customCategories = [],
      lightControls = Map.empty, climateControls = Map.empty, passwordHash = [],
      settingsUnlocked = False, passwordInput = [], newPassword = [], settingsError = [],
      storageError = [], settingsLoaded = False \<rparr>"

definition initialWorld :: "string \<Rightarrow> string \<Rightarrow> World" where
  "initialWorld envUrl envToken =
    \<lparr> panel = initialPanel envUrl envToken, saveDebounceRef = None, requests = [] \<rparr>"

definition flushes :: "Request list \<Rightarrow> Request list" where
  "flushes rs = filter (\<lambda>r. req_method r = ''PUT'') rs"

section \<open>Settings lock\<close>

text \<open>
  \<^verbatim>\<open>
  const hashValue = async (value: string) => {
    const encoder = new TextEncoder()
    const data = encoder.encode(value)
    const digest = await crypto.subtle.digest('SHA-256', data)
    return Array.from(new Uint8Array(digest))
      .map((byte) => byte.toString(16).padStart(2, '0'))
      .join('')
  }
  \<close>
  \<open>crypto.subtle.digest('SHA-256', _)\<close> is the platform's; it is the parameter \<open>sha256\<close>, a
  function from the bytes of the message to the bytes of the digest.
  \<open>TextEncoder.encode\<close> gives the UTF-8 bytes, which is what a \<open>string\<close> is here.
\<close>

type_synonym bytes = "8 word list"

definition encode :: "string \<Rightarrow> bytes" where
  "encode s = map (\<lambda>c. of_nat (of_char c)) s"

text \<open>\<open>(byte) => byte.toString(16).padStart(2, '0')\<close>\<close>

definition byteToHex :: "8 word \<Rightarrow> string" where
  "byteToHex byte = padStart2 (toString16 (Fin (of_nat (unat byte))))"

definition hashValue :: "(bytes \<Rightarrow> bytes) \<Rightarrow> string \<Rightarrow> string" where
  "hashValue sha256 v = concat (map byteToHex (sha256 (encode v)))"

text \<open>
  A stand-in for the platform digest, for running the lock on examples: the message
  itself.
\<close>

definition echoDigest :: "bytes \<Rightarrow> bytes" where
  "echoDigest message = message"

text \<open>
  \<^verbatim>\<open>
  const handleUnlock = async () => {
    if (!passwordHash) {
      if (!newPassword.trim()) {
        setSettingsError('Set a password to protect settings.')
        return
      }
      const hashed = await hashValue(newPassword.trim())
      setPasswordHash(hashed)
      setSettingsUnlocked(true)
      setSettingsError('')
      setPasswordInput('')
      setNewPassword('')
      return
    }
    const hashedInput = await hashValue(passwordInput)
    if (hashedInput === passwordHash) {
      setSettingsUnlocked(true)
      setSettingsError('')
    } else {
      setSettingsError('Incorrect password.')
    }
  }
  \<close>
\<close>

definition handleUnlock :: "(bytes \<Rightarrow> bytes) \<Rightarrow> Panel \<Rightarrow> Panel" where
  "handleUnlock sha256 p =
    (if passwordHash p = [] then
       (if trim (newPassword p) = []
        then p\<lparr> settingsError := ''Set a password to protect settings.'' \<rparr>
        else p\<lparr> passwordHash := hashValue sha256 (trim (newPassword p)),
                settingsUnlocked := True,
                settingsError := [],
                passwordInput := [],
                newPassword := [] \<rparr>)
     else
       (let hashedInput = hashValue sha256 (passwordInput p)
        in if hashedInput = passwordHash p
           then p\<lparr> settingsUnlocked := True, settingsError := [] \<rparr>
           else p\<lparr> settingsError := ''Incorrect password.'' \<rparr>))"

text \<open>
  \<^verbatim>\<open>
  const handleLock = () => {
    setSettingsUnlocked(false)
    setPasswordInput('')
    setSettingsError('')
  }
  \<close>
\<close>

definition handleLock :: "Panel \<Rightarrow> Panel" where
  "handleLock p = p\<lparr> settingsUnlocked := False, passwordInput := [], settingsError := [] \<rparr>"

text \<open>
  \<^verbatim>\<open>
  const updatePassword = async () => {
    if (!newPassword.trim()) {
      setSettingsError('Enter a new password.')
      return
    }
    const hashed = await hashValue(newPassword.trim())
    setPasswordHash(hashed)
    setSettingsUnlocked(true)
    setSettingsError('')
    setPasswordInput('')
    setNewPassword('')
  }
  \<close>
\<close>

definition updatePassword :: "(bytes \<Rightarrow> bytes) \<Rightarrow> Panel \<Rightarrow> Panel" where
  "updatePassword sha256 p =
    (if trim (newPassword p) = []
     then p\<lparr> settingsError := ''Enter a new password.'' \<rparr>
     else p\<lparr> passwordHash := hashValue sha256 (trim (newPassword p)),
             settingsUnlocked := True,
             settingsError := [],
             passwordInput := [],
             newPassword := [] \<rparr>)"

text \<open>
  The operations of the lock as the specification names them: \<open>set-password(p)\<close> types
  \<open>p\<close> into the new-password field and presses the unlock button while no hash is stored;
  \<open>attempt(q)\<close> types \<open>q\<close> into the password field and presses it.
\<close>

definition setPassword :: "(bytes \<Rightarrow> bytes) \<Rightarrow> string \<Rightarrow> Panel \<Rightarrow> Panel" where
  "setPassword sha256 pw p = handleUnlock sha256 (p\<lparr> newPassword := pw \<rparr>)"

definition attempt :: "(bytes \<Rightarrow> bytes) \<Rightarrow> string \<Rightarrow> Panel \<Rightarrow> Panel" where
  "attempt sha256 pw p = handleUnlock sha256 (p\<lparr> passwordInput := pw \<rparr>)"

section \<open>Vocabulary of the properties\<close>

text \<open>
  A value is numeric when \<open>toNumber\<close> reads a number from it: a finite number, or a
  non-blank string that \<open>Number\<close> reads as a finite number. Everything else is missing or
  malformed.
\<close>

definition numeric :: "jsval \<Rightarrow> bool" where
  "numeric v =
    (case v of
       JNum n \<Rightarrow> isFinite n
     | JStr s \<Rightarrow> trim s \<noteq> [] \<and> isFinite (StringToNumber s)
     | _ \<Rightarrow> False)"

text \<open>
  An \<open>rgb_color\<close> attribute is well formed when it is an array whose first three
  components are numeric, and missing or malformed otherwise.
\<close>

definition malformedRgb :: "jsval \<Rightarrow> bool" where
  "malformedRgb v =
    (case v of
       JArr (r # g # b # rest) \<Rightarrow> \<not> (numeric r \<and> numeric g \<and> numeric b)
     | _ \<Rightarrow> True)"

text \<open>An attribute bag with no key.\<close>

definition noAttributes :: "string \<Rightarrow> jsval" where
  "noAttributes key = JUndefined"



text \<open>Comparison of two strings by their bytes (their code points, in UTF-8).\<close>

fun byteCompare :: "string \<Rightarrow> string \<Rightarrow> int" where
  "byteCompare [] [] = 0"
| "byteCompare [] (y # ys) = - 1"
| "byteCompare (x # xs) [] = 1"
| "byteCompare (x # xs) (y # ys) =
    (if (of_char x :: nat) < of_char y then - 1
     else if (of_char y :: nat) < of_char x then 1
     else byteCompare xs ys)"








text \<open>
  A flush carries credentials when the document it sends has a token and, unless the
  proxy is used, a hub URL.
\<close>

definition credentialed :: "bool \<Rightarrow> Request \<Rightarrow> bool" where
  "credentialed envProxy r =
    (case req_body r of
       None \<Rightarrow> False
     | Some doc \<Rightarrow> doc_haToken doc \<noteq> [] \<and> (envProxy \<or> doc_haUrl doc \<noteq> []))"

text \<open>
  The invariant of the event loop: while the settings are not loaded no timeout is pending
  and no flush has been sent; a pending timeout closes over a render that is connected and
  loaded; every flush sent carries credentials.
\<close>

definition gateInvariant :: "bool \<Rightarrow> World \<Rightarrow> bool" where
  "gateInvariant envProxy w =
    ((\<not> settingsLoaded (panel w)
        \<longrightarrow> saveDebounceRef w = None \<and> flushes (requests w) = [])
     \<and> (\<forall>c. saveDebounceRef w = Some c
        \<longrightarrow> connectionReady envProxy c \<and> settingsLoaded c)
     \<and> list_all (credentialed envProxy) (flushes (requests w)))"

text \<open>The body \<open>{}\<close> of a settings store that holds nothing yet.\<close>

definition noSettings :: StoredSettings where
  "noSettings =
    \<lparr> stored_haUrl = None, stored_haToken = None, stored_hiddenEntities = None,
      stored_nameOverrides = None, stored_categoryMap = None, stored_entityOrder = None,
      stored_customCategories = None, stored_passwordHash = None \<rparr>"

section \<open>Evaluation rules for the host functions\<close>

lemmas trim_eval = trim_def trimEnd_def trimStart_def whiteSpace_def

lemmas number_eval = StringToNumber_def nonDecimalInteger_def strDecimalLiteral_def
  unsignedDecimal_def signedInteger_def allDigits_def digitOf_def digitsValue_def
  decimalValue_def numberValue_def pow2_def roundHalfEven_def bitLength.simps

lemmas hex_eval = toHex_def Math_min_def Math_max_def toString16_def padStart2_def
  hexNat.simps hexDigit_def

lemma trim_42: "trim ''42'' = ''42''"
  by (simp add: trim_eval)

lemma number_42: "StringToNumber ''42'' = Fin 42"
  by (simp add: trim_eval number_eval Let_def)

lemma number_padded: "StringToNumber '' 21.5 '' = Fin (43 / 2)"
  by (simp add: trim_eval number_eval Let_def)

lemma trim_not_a_number: "trim ''not-a-number'' = ''not-a-number''"
  by (simp add: trim_eval)

lemma number_not_a_number: "StringToNumber ''not-a-number'' = NaN"
  by (simp add: trim_eval number_eval Let_def)

lemma hexNat_byte: "n < 256 \<Longrightarrow>
  padStart2 (hexNat n) = [hexDigit (n div 16), hexDigit (n mod 16)]"
proof -
  assume n: "n < 256"
  have z: "hexDigit 0 = CHR ''0''" by (simp add: hexDigit_def)
  have small: "n div 16 < 16" using n by simp
  have "hexNat n = (if n < 16 then [hexDigit n] else [hexDigit (n div 16), hexDigit (n mod 16)])"
    using small by (simp add: hexNat.simps [of n] hexNat.simps [of "n div 16"])
  then show ?thesis
    using z by (simp add: padStart2_def)
qed

lemma toString16_nat: "toString16 (Fin (of_nat n)) = hexNat n"
  by (simp add: toString16_def)

section \<open>Properties of \<open>toNumber\<close>\<close>

lemma toNumber_number: "toNumber (JNum n) fb = (if isFinite n then n else fb)"
  by (simp add: toNumber_def)

lemma toNumber_string:
  "toNumber (JStr s) fb
     = (if trim s \<noteq> [] \<and> isFinite (StringToNumber s) then StringToNumber s else fb)"
  by (simp add: toNumber_def Let_def)

lemma toNumber_other:
  "\<forall>m. v \<noteq> JNum m \<Longrightarrow> \<forall>t. v \<noteq> JStr t \<Longrightarrow> toNumber v fb = fb"
  by (cases v) (simp_all add: toNumber_def)

lemma toNumber_fallback: "\<not> numeric v \<Longrightarrow> toNumber v fb = fb"
  by (auto simp: numeric_def toNumber_def Let_def split: jsval.splits)

lemma toNumber_numeric: "numeric v \<Longrightarrow> isFinite (toNumber v fb)"
  by (auto simp: numeric_def toNumber_def Let_def split: jsval.splits)

lemma toNumber_cases:
  "(\<exists>n. v = JNum n \<and> isFinite n \<and> toNumber v fb = n)
   \<or> (\<exists>s. v = JStr s \<and> trim s \<noteq> [] \<and> isFinite (StringToNumber s)
            \<and> toNumber v fb = StringToNumber s)
   \<or> toNumber v fb = fb"
  by (cases v) (auto simp: toNumber_def Let_def)

lemma toNumber_finite: "isFinite fb \<Longrightarrow> isFinite (toNumber v fb)"
  using toNumber_cases [of v fb] by auto

text \<open>
  Claim C10. \<open>toNumber\<close> is a total function of its two arguments (the source has no
  throwing operation: \<open>typeof\<close>, \<open>Number.isFinite\<close>, \<open>trim\<close> and \<open>Number\<close> of a string
  never throw). Case by case: a finite number is returned as it is, any other number gives
  the fallback; a non-blank string that \<open>Number\<close> reads as a finite number gives that
  number, any other string gives the fallback; every other value gives the fallback. So
  with a finite fallback the result is finite: never NaN, never an infinity.
\<close>

theorem toNumber_total_finite:
  "(isFinite n \<longrightarrow> toNumber (JNum n) fallback = n)
   \<and> (\<not> isFinite n \<longrightarrow> toNumber (JNum n) fallback = fallback)
   \<and> (trim s \<noteq> [] \<and> isFinite (StringToNumber s)
        \<longrightarrow> toNumber (JStr s) fallback = StringToNumber s)
   \<and> (trim s = [] \<or> \<not> isFinite (StringToNumber s)
        \<longrightarrow> toNumber (JStr s) fallback = fallback)
   \<and> ((\<forall>m. v \<noteq> JNum m) \<and> (\<forall>t. v \<noteq> JStr t) \<longrightarrow> toNumber v fallback = fallback)
   \<and> (isFinite fallback \<longrightarrow> isFinite (toNumber v fallback))"
proof (intro conjI impI)
  assume "isFinite n"
  then show "toNumber (JNum n) fallback = n"
    by (simp add: toNumber_number)
next
  assume "\<not> isFinite n"
  then show "toNumber (JNum n) fallback = fallback"
    by (simp add: toNumber_number)
next
  assume "trim s \<noteq> [] \<and> isFinite (StringToNumber s)"
  then show "toNumber (JStr s) fallback = StringToNumber s"
    by (simp add: toNumber_string)
next
  assume "trim s = [] \<or> \<not> isFinite (StringToNumber s)"
  then show "toNumber (JStr s) fallback = fallback"
    by (auto simp: toNumber_string)
next
  assume "(\<forall>m. v \<noteq> JNum m) \<and> (\<forall>t. v \<noteq> JStr t)"
  then show "toNumber v fallback = fallback"
    by (simp add: toNumber_other)
next
  assume "isFinite fallback"
  then show "isFinite (toNumber v fallback)"
    by (rule toNumber_finite)
qed

theorem toNumber_total_finite_witness:
  "toNumber (JNum (Fin 77)) (Fin 180) = Fin 77
   \<and> toNumber (JNum PosInf) (Fin 180) = Fin 180
   \<and> toNumber (JStr ''42'') (Fin 180) = Fin 42
   \<and> toNumber (JStr ''not-a-number'') (Fin 180) = Fin 180
   \<and> toNumber JNull (Fin 180) = Fin 180
   \<and> isFinite (toNumber (JStr ''42'') (Fin 180))"
  using toNumber_total_finite
      [where n = "Fin 77" and fallback = "Fin 180" and s = "''42''" and v = JNull]
    toNumber_total_finite
      [where n = PosInf and fallback = "Fin 180" and s = "''not-a-number''"
         and v = "JStr ''42''"]
  by (simp add: trim_42 number_42 trim_not_a_number number_not_a_number)

section \<open>Properties of the control-state bootstrap\<close>

lemma ensureLight_keep: "m i = Some l \<Longrightarrow> ensureLight m e i = Some l"
  by (auto simp: ensureLight_def)

lemma ensureClimate_keep: "m i = Some l \<Longrightarrow> ensureClimate m e i = Some l"
  by (auto simp: ensureClimate_def)

lemma foldl_ensureLight_keep: "m i = Some l \<Longrightarrow> foldl ensureLight m es i = Some l"
  by (induction es arbitrary: m) (simp_all add: ensureLight_keep)

lemma foldl_ensureClimate_keep: "m i = Some l \<Longrightarrow> foldl ensureClimate m es i = Some l"
  by (induction es arbitrary: m) (simp_all add: ensureClimate_keep)

lemma lightControlsUpdater_keep:
  "prev i = Some l \<Longrightarrow> lightControlsUpdater es prev i = Some l"
  by (simp add: lightControlsUpdater_def foldl_ensureLight_keep)

lemma climateControlsUpdater_keep:
  "prev i = Some l \<Longrightarrow> climateControlsUpdater es prev i = Some l"
  by (simp add: climateControlsUpdater_def foldl_ensureClimate_keep)

lemma foldl_ensureLight_seeded:
  "e \<in> set es \<Longrightarrow> foldl ensureLight m es (entity_id e) \<noteq> None"
proof (induction es arbitrary: m)
  case Nil
  then show ?case by simp
next
  case (Cons x xs)
  show ?case
  proof (cases "e = x")
    case True
    obtain l where "ensureLight m x (entity_id x) = Some l"
      by (cases "m (entity_id x)") (auto simp: ensureLight_def)
    then show ?thesis using True foldl_ensureLight_keep by simp
  next
    case False
    then show ?thesis using Cons by simp
  qed
qed

lemma foldl_ensureClimate_seeded:
  "e \<in> set es \<Longrightarrow> foldl ensureClimate m es (entity_id e) \<noteq> None"
proof (induction es arbitrary: m)
  case Nil
  then show ?case by simp
next
  case (Cons x xs)
  show ?case
  proof (cases "e = x")
    case True
    obtain l where "ensureClimate m x (entity_id x) = Some l"
      by (cases "m (entity_id x)") (auto simp: ensureClimate_def)
    then show ?thesis using True foldl_ensureClimate_keep by simp
  next
    case False
    then show ?thesis using Cons by simp
  qed
qed

lemma foldl_ensureLight_id:
  "\<forall>e\<in>set es. m (entity_id e) \<noteq> None \<Longrightarrow> foldl ensureLight m es = m"
  by (induction es arbitrary: m) (auto simp: ensureLight_def)

lemma foldl_ensureClimate_id:
  "\<forall>e\<in>set es. m (entity_id e) \<noteq> None \<Longrightarrow> foldl ensureClimate m es = m"
  by (induction es arbitrary: m) (auto simp: ensureClimate_def)

lemma lightControlsUpdater_idem:
  "lightControlsUpdater es (lightControlsUpdater es prev) = lightControlsUpdater es prev"
  unfolding lightControlsUpdater_def
  by (rule foldl_ensureLight_id) (simp add: foldl_ensureLight_seeded)

lemma climateControlsUpdater_idem:
  "climateControlsUpdater es (climateControlsUpdater es prev) = climateControlsUpdater es prev"
  unfolding climateControlsUpdater_def
  by (rule foldl_ensureClimate_id) (simp add: foldl_ensureClimate_seeded)

lemma foldl_ensureLight_first:
  "m (entity_id e) = None \<Longrightarrow> \<forall>x\<in>set pre. entity_id x \<noteq> entity_id e \<Longrightarrow>
   foldl ensureLight m (pre @ e # post) (entity_id e) = Some (seedLight e)"
proof (induction pre arbitrary: m)
  case Nil
  then have "ensureLight m e (entity_id e) = Some (seedLight e)"
    by (simp add: ensureLight_def)
  then show ?case by (simp add: foldl_ensureLight_keep)
next
  case (Cons x xs)
  from Cons.prems have neq: "entity_id x \<noteq> entity_id e"
    and rest: "\<forall>y\<in>set xs. entity_id y \<noteq> entity_id e" by simp_all
  have step: "ensureLight m x (entity_id e) = None"
    using neq Cons.prems(1) by (auto simp: ensureLight_def)
  show ?case using Cons.IH [of "ensureLight m x"] step rest by simp
qed

lemma foldl_ensureClimate_first:
  "m (entity_id e) = None \<Longrightarrow> \<forall>x\<in>set pre. entity_id x \<noteq> entity_id e \<Longrightarrow>
   foldl ensureClimate m (pre @ e # post) (entity_id e) = Some (seedClimate e)"
proof (induction pre arbitrary: m)
  case Nil
  then have "ensureClimate m e (entity_id e) = Some (seedClimate e)"
    by (simp add: ensureClimate_def)
  then show ?case by (simp add: foldl_ensureClimate_keep)
next
  case (Cons x xs)
  from Cons.prems have neq: "entity_id x \<noteq> entity_id e"
    and rest: "\<forall>y\<in>set xs. entity_id y \<noteq> entity_id e" by simp_all
  have step: "ensureClimate m x (entity_id e) = None"
    using neq Cons.prems(1) by (auto simp: ensureClimate_def)
  show ?case using Cons.IH [of "ensureClimate m x"] step rest by simp
qed

text \<open>
  Claim C2. The bootstrap never overwrites an entry: if the light (climate) table already
  has an entry for an identifier, the entry is the same after the bootstrap step, for
  every snapshot, whatever the attributes of the devices in it. And the step is
  idempotent: running it twice on the same snapshot gives the same tables as running it
  once.
\<close>

theorem bootstrap_never_overwrites:
  "(prevL i = Some l \<longrightarrow> lightControlsUpdater snapshot prevL i = Some l)
   \<and> (prevC i = Some c \<longrightarrow> climateControlsUpdater snapshot prevC i = Some c)
   \<and> lightControlsUpdater snapshot (lightControlsUpdater snapshot prevL)
       = lightControlsUpdater snapshot prevL
   \<and> climateControlsUpdater snapshot (climateControlsUpdater snapshot prevC)
       = climateControlsUpdater snapshot prevC"
  by (simp add: lightControlsUpdater_idem climateControlsUpdater_idem
      lightControlsUpdater_keep climateControlsUpdater_keep)

theorem bootstrap_never_overwrites_witness:
  "lightControlsUpdater
     [\<lparr> entity_id = ''light.desk'', state = ''on'',
        attributes = noAttributes(''brightness'' := JNum (Fin 10)) \<rparr>]
     [''light.desk'' \<mapsto> \<lparr> brightness = Fin 77, color = ''#102030'', colorTemp = Fin 250 \<rparr>]
     ''light.desk''
     = Some \<lparr> brightness = Fin 77, color = ''#102030'', colorTemp = Fin 250 \<rparr>
   \<and> climateControlsUpdater
     [\<lparr> entity_id = ''climate.hall'', state = ''heat'',
        attributes = noAttributes(''temperature'' := JNum (Fin 19)) \<rparr>]
     [''climate.hall'' \<mapsto> \<lparr> temperature = Fin 23, hvacMode = ''cool'' \<rparr>]
     ''climate.hall''
     = Some \<lparr> temperature = Fin 23, hvacMode = ''cool'' \<rparr>"
  using bootstrap_never_overwrites
    [where prevL = "[''light.desk'' \<mapsto> \<lparr> brightness = Fin 77, color = ''#102030'', colorTemp = Fin 250 \<rparr>]"
       and prevC = "[''climate.hall'' \<mapsto> \<lparr> temperature = Fin 23, hvacMode = ''cool'' \<rparr>]"
       and i = "''light.desk''"
       and l = "\<lparr> brightness = Fin 77, color = ''#102030'', colorTemp = Fin 250 \<rparr>"
       and snapshot = "[\<lparr> entity_id = ''light.desk'', state = ''on'',
        attributes = noAttributes(''brightness'' := JNum (Fin 10)) \<rparr>]"]
    bootstrap_never_overwrites
    [where prevC = "[''climate.hall'' \<mapsto> \<lparr> temperature = Fin 23, hvacMode = ''cool'' \<rparr>]"
       and i = "''climate.hall''"
       and c = "\<lparr> temperature = Fin 23, hvacMode = ''cool'' \<rparr>"
       and snapshot = "[\<lparr> entity_id = ''climate.hall'', state = ''heat'',
        attributes = noAttributes(''temperature'' := JNum (Fin 19)) \<rparr>]"]
  by simp

section \<open>Properties of the entity order\<close>

lemma foldl_pushUnknown:
  "foldl (pushUnknown K) acc es = acc @ filter (\<lambda>i. i \<notin> K) (map entity_id es)"
  by (induction es arbitrary: acc) (auto simp: pushUnknown_def)

lemma entityOrderEffect_eq:
  "entityOrderEffect snapshot prev
     = prev @ filter (\<lambda>i. i \<notin> set prev) (map entity_id snapshot)"
  by (simp add: entityOrderEffect_def entityOrderUpdater_def foldl_pushUnknown)

lemma entityOrderEffect_prefix: "prefix prev (entityOrderEffect snapshot prev)"
  by (simp add: entityOrderEffect_eq)

lemma polls_prefix:
  "prefix prev (foldl (\<lambda>order snapshot. entityOrderEffect snapshot order) prev snapshots)"
proof (induction snapshots arbitrary: prev)
  case Nil
  then show ?case by simp
next
  case (Cons s ss)
  have "prefix prev (entityOrderEffect s prev)"
    by (rule entityOrderEffect_prefix)
  moreover have "prefix (entityOrderEffect s prev)
     (foldl (\<lambda>order snapshot. entityOrderEffect snapshot order) (entityOrderEffect s prev) ss)"
    by (rule Cons.IH)
  ultimately show ?case by (auto intro: prefix_order.trans)
qed

text \<open>
  Claim C3. After the append step the order sequence is the original sequence followed
  by the identifiers of the snapshot that are not in the original sequence, in snapshot
  order; so the original sequence is the beginning of the new one, position by position.
\<close>

theorem entityOrder_append:
  "entityOrderEffect snapshot prev
     = prev @ filter (\<lambda>i. i \<notin> set prev) (map entity_id snapshot)
   \<and> take (length prev) (entityOrderEffect snapshot prev) = prev"
  by (simp add: entityOrderEffect_eq)

text \<open>
  Claim C9. The order sequence is monotone under polling: after one poll, and after any
  number of polls, the old sequence is a prefix of the new one, so every identifier keeps
  its position and none is removed, also when its device is no longer in the snapshot;
  an empty snapshot leaves the sequence unchanged.
\<close>

theorem entityOrder_monotone:
  "prefix prev (entityOrderEffect snapshot prev)
   \<and> (\<forall>k < length prev. entityOrderEffect snapshot prev ! k = prev ! k)
   \<and> set prev \<subseteq> set (entityOrderEffect snapshot prev)
   \<and> prefix prev (foldl (\<lambda>order s. entityOrderEffect s order) prev snapshots)
   \<and> entityOrderEffect [] prev = prev"
proof -
  have "\<forall>k < length prev. entityOrderEffect snapshot prev ! k = prev ! k"
    by (simp add: entityOrderEffect_eq nth_append)
  moreover have "set prev \<subseteq> set (entityOrderEffect snapshot prev)"
    by (simp add: entityOrderEffect_eq)
  moreover have "entityOrderEffect [] prev = prev"
    by (simp add: entityOrderEffect_eq)
  ultimately show ?thesis
    using entityOrderEffect_prefix polls_prefix by blast
qed

theorem entityOrder_monotone_witness:
  "entityOrderEffect
     [\<lparr> entity_id = ''light.c'', state = ''on'', attributes = noAttributes \<rparr>,
      \<lparr> entity_id = ''light.a'', state = ''off'', attributes = noAttributes \<rparr>]
     [''light.a'', ''switch.gone''] ! 1 = ''switch.gone''
   \<and> entityOrderEffect
     [\<lparr> entity_id = ''light.c'', state = ''on'', attributes = noAttributes \<rparr>,
      \<lparr> entity_id = ''light.a'', state = ''off'', attributes = noAttributes \<rparr>]
     [''light.a'', ''switch.gone''] = [''light.a'', ''switch.gone'', ''light.c'']"
  using entityOrder_monotone
    [where prev = "[''light.a'', ''switch.gone'']"
       and snapshot = "[\<lparr> entity_id = ''light.c'', state = ''on'', attributes = noAttributes \<rparr>,
      \<lparr> entity_id = ''light.a'', state = ''off'', attributes = noAttributes \<rparr>]"]
  by (simp add: entityOrderEffect_def entityOrderUpdater_def pushUnknown_def)

section \<open>Missing and malformed values\<close>

lemma not_a_number_malformed: "\<not> numeric (JStr ''not-a-number'')"
  by (simp add: numeric_def trim_not_a_number number_not_a_number)

lemma numeric_undefined: "\<not> numeric JUndefined"
  by (simp add: numeric_def)

lemma toHex_fallback: "\<not> numeric v \<Longrightarrow> toHex v = ''ff''"
  by (simp add: toNumber_fallback hex_eval)

lemma toHex_byte:
  "k \<le> 255 \<Longrightarrow> toHex (JNum (Fin (of_nat k))) = [hexDigit (k div 16), hexDigit (k mod 16)]"
proof -
  assume k: "k \<le> 255"
  have "toNumber (JNum (Fin (of_nat k))) (Fin 255) = Fin (of_nat k)"
    by (simp add: toNumber_number)
  moreover have "Math_max (Fin 0) (Math_min (Fin 255) (Fin (of_nat k))) = Fin (of_nat k)"
    using k by (auto simp: Math_min_def Math_max_def)
  ultimately have "toHex (JNum (Fin (of_nat k))) = padStart2 (toString16 (Fin (of_nat k)))"
    by (simp add: toHex_def)
  then show ?thesis
    using k by (simp add: toString16_nat hexNat_byte)
qed

section \<open>Properties of capability inference\<close>

lemma getLightCapabilities_table:
  "getLightCapabilities \<lparr> entity_id = i, state = s,
      attributes = noAttributes(''supported_color_modes'' := JArr [JStr ''color_temp'']) \<rparr>
     = \<lparr> supportsColor = False, supportsColorTemp = True \<rparr>"
  "getLightCapabilities \<lparr> entity_id = i, state = s,
      attributes = noAttributes(''supported_color_modes'' := JArr [JStr ''rgb'']) \<rparr>
     = \<lparr> supportsColor = True, supportsColorTemp = False \<rparr>"
  "getLightCapabilities \<lparr> entity_id = i, state = s,
      attributes = noAttributes(''supported_color_modes'' := JArr [JStr ''onoff'']) \<rparr>
     = \<lparr> supportsColor = False, supportsColorTemp = False \<rparr>"
  "getLightCapabilities \<lparr> entity_id = i, state = s, attributes = noAttributes \<rparr>
     = \<lparr> supportsColor = False, supportsColorTemp = False \<rparr>"
  "getLightCapabilities \<lparr> entity_id = i, state = s,
      attributes = noAttributes(''supported_color_modes'' := JStr ''rgb'',
                                ''color_mode'' := JNum (Fin 1)) \<rparr>
     = \<lparr> supportsColor = False, supportsColorTemp = False \<rparr>"
  by (simp_all add: getLightCapabilities_def arrayIncludes_def noAttributes_def)

lemma supportsColor_iff:
  "supportsColor (getLightCapabilities e) \<longleftrightarrow>
     (\<exists>t \<in> {''rgb'', ''hs'', ''rgbw'', ''rgbww'', ''xy''}.
        arrayIncludes (case attributes e ''supported_color_modes'' of JArr xs \<Rightarrow> xs | _ \<Rightarrow> []) t)
     \<or> (case attributes e ''color_mode'' of JStr m \<Rightarrow> m | _ \<Rightarrow> [])
           \<in> {''rgb'', ''hs'', ''xy''}"
  by (simp add: getLightCapabilities_def Let_def)

lemma supportsColorTemp_iff:
  "supportsColorTemp (getLightCapabilities e) \<longleftrightarrow>
     (\<exists>t \<in> {''color_temp'', ''kelvin''}.
        arrayIncludes (case attributes e ''supported_color_modes'' of JArr xs \<Rightarrow> xs | _ \<Rightarrow> []) t)
     \<or> (case attributes e ''color_mode'' of JStr m \<Rightarrow> m | _ \<Rightarrow> [])
           \<in> {''color_temp'', ''kelvin''}"
  by (simp add: getLightCapabilities_def Let_def)

text \<open>
  Claim C5. The claim asks for one token set, used both for the advertised modes and for
  the current colour mode. For colour the source tests the advertised modes against
  \<open>rgb, hs, rgbw, rgbww, xy\<close> but the current mode against \<open>rgb, hs, xy\<close> only. So a
  device whose current mode is \<open>rgbw\<close> (no advertised modes) is reported as not
  colour-capable, while the same token in the advertised modes makes it colour-capable.
\<close>

theorem getLightCapabilities_rgbw_mode:
  "getLightCapabilities \<lparr> entity_id = ''light.strip'', state = ''on'',
      attributes = noAttributes(''color_mode'' := JStr ''rgbw'') \<rparr>
     = \<lparr> supportsColor = False, supportsColorTemp = False \<rparr>
   \<and> getLightCapabilities \<lparr> entity_id = ''light.strip'', state = ''on'',
      attributes = noAttributes(''supported_color_modes'' := JArr [JStr ''rgbw'']) \<rparr>
     = \<lparr> supportsColor = True, supportsColorTemp = False \<rparr>"
  by (simp add: getLightCapabilities_def arrayIncludes_def noAttributes_def)

section \<open>Fallback defaults of the bootstrap\<close>

lemma filter_first:
  "P e \<Longrightarrow> filter P (pre @ e # post) = filter P pre @ e # filter P post"
  by simp

lemma lightControlsUpdater_seeds:
  assumes "prefix ''light.'' (entity_id e)" and "prev (entity_id e) = None"
    and "\<forall>x\<in>set pre. entity_id x \<noteq> entity_id e"
  shows "lightControlsUpdater (pre @ e # post) prev (entity_id e) = Some (seedLight e)"
proof -
  have "\<forall>x\<in>set (filter (\<lambda>x. prefix ''light.'' (entity_id x)) pre). entity_id x \<noteq> entity_id e"
    using assms(3) by simp
  then show ?thesis
    using assms(1,2) foldl_ensureLight_first
    by (simp add: lightControlsUpdater_def)
qed

lemma climateControlsUpdater_seeds:
  assumes "prefix ''climate.'' (entity_id e)" and "prev (entity_id e) = None"
    and "\<forall>x\<in>set pre. entity_id x \<noteq> entity_id e"
  shows "climateControlsUpdater (pre @ e # post) prev (entity_id e) = Some (seedClimate e)"
proof -
  have "\<forall>x\<in>set (filter (\<lambda>x. prefix ''climate.'' (entity_id x)) pre). entity_id x \<noteq> entity_id e"
    using assms(3) by simp
  then show ?thesis
    using assms(1,2) foldl_ensureClimate_first
    by (simp add: climateControlsUpdater_def)
qed

lemma rgbToHex_short:
  "\<forall>r g b rest. v \<noteq> JArr (r # g # b # rest) \<Longrightarrow> rgbToHex v = ''#ffffff''"
  by (auto simp: rgbToHex_def split: jsval.splits list.splits)

lemma hvacMode_default:
  "\<forall>s. attributes e ''hvac_mode'' \<noteq> JStr s \<Longrightarrow> hvacMode (seedClimate e) = ''auto''"
  by (auto simp: seedClimate_def split: jsval.splits)

text \<open>
  Claim C7, as stated, fails: a malformed \<open>rgb_color\<close> does not always seed \<open>#ffffff\<close>.
  The array \<open>[0, "x", 0]\<close> has a non-numeric component, and seeds \<open>#00ff00\<close>: only the
  malformed component is replaced (by 255).
\<close>

theorem malformed_rgb_not_white:
  "malformedRgb (JArr [JNum (Fin 0), JStr ''x'', JNum (Fin 0)])
   \<and> color (seedLight \<lparr> entity_id = ''light.desk'', state = ''on'',
        attributes = noAttributes(''rgb_color'' := JArr [JNum (Fin 0), JStr ''x'', JNum (Fin 0)]) \<rparr>)
      = ''#00ff00''
   \<and> color (seedLight \<lparr> entity_id = ''light.desk'', state = ''on'',
        attributes = noAttributes(''rgb_color'' := JArr [JNum (Fin 0), JStr ''x'', JNum (Fin 0)]) \<rparr>)
      \<noteq> ''#ffffff''"
  by (simp add: malformedRgb_def numeric_def seedLight_def rgbToHex_def toNumber_def
      trim_eval number_eval hex_eval Let_def)

lemma seedClimate_temperature:
  "temperature (seedClimate e)
     = toNumber (attributes e ''temperature'')
         (toNumber (attributes e ''current_temperature'') (Fin 22))"
  by (simp add: seedClimate_def)

text \<open>
  Claim C7, amended. A light seen for the first time is seeded with \<open>seedLight\<close>, a
  climate device with \<open>seedClimate\<close>, and:
  \<^item> a missing or non-numeric \<open>brightness\<close> seeds 180, a finite number seeds itself, and
    the seeded brightness is always finite (never NaN);
  \<^item> a missing or non-numeric \<open>color_temp\<close> seeds 300, a finite number seeds itself;
  \<^item> an \<open>rgb_color\<close> that is not an array of at least three elements seeds \<open>#ffffff\<close>;
    in an array of at least three elements each of the first three components is rendered
    on its own: a missing or non-numeric component as \<open>ff\<close>, an integer from 0 to 255 as
    its two hexadecimal digits;
  \<^item> a finite target \<open>temperature\<close> seeds itself; a missing or non-numeric one falls
    back to the current temperature (that number, or the number its string parses to), and
    to 22 when that is missing or non-numeric too;
  \<^item> an \<open>hvac_mode\<close> that is a string seeds itself, anything else seeds \<open>auto\<close>.
\<close>

theorem bootstrap_fallback_defaults:
  "(prefix ''light.'' (entity_id e) \<and> prevL (entity_id e) = None
      \<and> (\<forall>x\<in>set pre. entity_id x \<noteq> entity_id e)
      \<longrightarrow> lightControlsUpdater (pre @ e # post) prevL (entity_id e) = Some (seedLight e))
   \<and> (prefix ''climate.'' (entity_id e) \<and> prevC (entity_id e) = None
      \<and> (\<forall>x\<in>set pre. entity_id x \<noteq> entity_id e)
      \<longrightarrow> climateControlsUpdater (pre @ e # post) prevC (entity_id e) = Some (seedClimate e))
   \<and> (\<not> numeric (attributes e ''brightness'') \<longrightarrow> brightness (seedLight e) = Fin 180)
   \<and> isFinite (brightness (seedLight e))
   \<and> (\<not> numeric (attributes e ''color_temp'') \<longrightarrow> colorTemp (seedLight e) = Fin 300)
   \<and> ((\<forall>r g b rest. attributes e ''rgb_color'' \<noteq> JArr (r # g # b # rest))
      \<longrightarrow> color (seedLight e) = ''#ffffff'')
   \<and> (attributes e ''rgb_color'' = JArr (r # g # b # rest)
      \<longrightarrow> color (seedLight e) = ''#'' @ toHex r @ toHex g @ toHex b)
   \<and> (\<not> numeric v \<longrightarrow> toHex v = ''ff'')
   \<and> (\<not> numeric (attributes e ''temperature'')
      \<and> \<not> numeric (attributes e ''current_temperature'')
      \<longrightarrow> temperature (seedClimate e) = Fin 22)
   \<and> ((\<forall>s. attributes e ''hvac_mode'' \<noteq> JStr s) \<longrightarrow> hvacMode (seedClimate e) = ''auto'')
   \<and> (attributes e ''brightness'' = JNum n \<and> isFinite n \<longrightarrow> brightness (seedLight e) = n)
   \<and> (attributes e ''color_temp'' = JNum n \<and> isFinite n \<longrightarrow> colorTemp (seedLight e) = n)
   \<and> (k \<le> 255 \<longrightarrow> toHex (JNum (Fin (of_nat k))) = [hexDigit (k div 16), hexDigit (k mod 16)])
   \<and> (attributes e ''temperature'' = JNum n \<and> isFinite n
      \<longrightarrow> temperature (seedClimate e) = n)
   \<and> (\<not> numeric (attributes e ''temperature'')
      \<and> attributes e ''current_temperature'' = JNum n \<and> isFinite n
      \<longrightarrow> temperature (seedClimate e) = n)
   \<and> (\<not> numeric (attributes e ''temperature'')
      \<and> attributes e ''current_temperature'' = JStr t \<and> trim t \<noteq> []
      \<and> isFinite (StringToNumber t)
      \<longrightarrow> temperature (seedClimate e) = StringToNumber t)
   \<and> (attributes e ''hvac_mode'' = JStr m \<longrightarrow> hvacMode (seedClimate e) = m)"
proof -
  have seedL: "prefix ''light.'' (entity_id e) \<and> prevL (entity_id e) = None
      \<and> (\<forall>x\<in>set pre. entity_id x \<noteq> entity_id e)
      \<longrightarrow> lightControlsUpdater (pre @ e # post) prevL (entity_id e) = Some (seedLight e)"
    using lightControlsUpdater_seeds by blast
  have seedC: "prefix ''climate.'' (entity_id e) \<and> prevC (entity_id e) = None
      \<and> (\<forall>x\<in>set pre. entity_id x \<noteq> entity_id e)
      \<longrightarrow> climateControlsUpdater (pre @ e # post) prevC (entity_id e) = Some (seedClimate e)"
    using climateControlsUpdater_seeds by blast
  have b: "\<not> numeric (attributes e ''brightness'') \<longrightarrow> brightness (seedLight e) = Fin 180"
    by (simp add: seedLight_def toNumber_fallback)
  have fin: "isFinite (brightness (seedLight e))"
    by (simp add: seedLight_def toNumber_finite)
  have ct: "\<not> numeric (attributes e ''color_temp'') \<longrightarrow> colorTemp (seedLight e) = Fin 300"
    by (simp add: seedLight_def toNumber_fallback)
  have rgb0: "(\<forall>r g b rest. attributes e ''rgb_color'' \<noteq> JArr (r # g # b # rest))
      \<longrightarrow> color (seedLight e) = ''#ffffff''"
    using rgbToHex_short by (simp add: seedLight_def)
  have rgb3: "attributes e ''rgb_color'' = JArr (r # g # b # rest)
      \<longrightarrow> color (seedLight e) = ''#'' @ toHex r @ toHex g @ toHex b"
    by (simp add: seedLight_def rgbToHex_def)
  have hx: "\<not> numeric v \<longrightarrow> toHex v = ''ff''"
    using toHex_fallback by blast
  have t2: "\<not> numeric (attributes e ''temperature'')
      \<and> \<not> numeric (attributes e ''current_temperature'')
      \<longrightarrow> temperature (seedClimate e) = Fin 22"
    by (simp add: seedClimate_temperature toNumber_fallback)
  have hv0: "(\<forall>s. attributes e ''hvac_mode'' \<noteq> JStr s) \<longrightarrow> hvacMode (seedClimate e) = ''auto''"
    using hvacMode_default by blast
  have bn: "attributes e ''brightness'' = JNum n \<and> isFinite n \<longrightarrow> brightness (seedLight e) = n"
    by (simp add: seedLight_def toNumber_number)
  have cn: "attributes e ''color_temp'' = JNum n \<and> isFinite n \<longrightarrow> colorTemp (seedLight e) = n"
    by (simp add: seedLight_def toNumber_number)
  have hb: "k \<le> 255 \<longrightarrow> toHex (JNum (Fin (of_nat k))) = [hexDigit (k div 16), hexDigit (k mod 16)]"
    using toHex_byte by blast
  have tn: "attributes e ''temperature'' = JNum n \<and> isFinite n
      \<longrightarrow> temperature (seedClimate e) = n"
    by (simp add: seedClimate_temperature toNumber_number)
  have t3: "\<not> numeric (attributes e ''temperature'')
      \<and> attributes e ''current_temperature'' = JNum n \<and> isFinite n
      \<longrightarrow> temperature (seedClimate e) = n"
    by (simp add: seedClimate_temperature toNumber_fallback toNumber_number)
  have t4: "\<not> numeric (attributes e ''temperature'')
      \<and> attributes e ''current_temperature'' = JStr t \<and> trim t \<noteq> []
      \<and> isFinite (StringToNumber t)
      \<longrightarrow> temperature (seedClimate e) = StringToNumber t"
    by (simp add: seedClimate_temperature toNumber_fallback toNumber_string)
  have hv: "attributes e ''hvac_mode'' = JStr m \<longrightarrow> hvacMode (seedClimate e) = m"
    by (simp add: seedClimate_def)
  from seedL seedC b fin ct rgb0 rgb3 hx t2 hv0 bn cn hb tn t3 t4 hv
  show ?thesis by (intro conjI)
qed

theorem bootstrap_fallback_defaults_witness:
  "lightControlsUpdater
     [\<lparr> entity_id = ''light.desk'', state = ''on'',
        attributes = noAttributes(''brightness'' := JStr ''not-a-number'') \<rparr>]
     Map.empty ''light.desk''
   = Some \<lparr> brightness = Fin 180, color = ''#ffffff'', colorTemp = Fin 300 \<rparr>
   \<and> climateControlsUpdater
     [\<lparr> entity_id = ''climate.hall'', state = ''heat'',
        attributes = noAttributes(''current_temperature'' := JNum (Fin (43 / 2))) \<rparr>]
     Map.empty ''climate.hall''
   = Some \<lparr> temperature = Fin (43 / 2), hvacMode = ''auto'' \<rparr>
   \<and> temperature (seedClimate \<lparr> entity_id = ''climate.hall'', state = ''heat'',
        attributes = noAttributes(''temperature'' := JStr ''not-a-number'',
                                  ''current_temperature'' := JStr '' 21.5 '') \<rparr>)
     = Fin (43 / 2)
   \<and> temperature (seedClimate \<lparr> entity_id = ''climate.hall'', state = ''heat'',
        attributes = noAttributes \<rparr>)
     = Fin 22"
proof -
  have light: "lightControlsUpdater
     [\<lparr> entity_id = ''light.desk'', state = ''on'',
        attributes = noAttributes(''brightness'' := JStr ''not-a-number'') \<rparr>]
     Map.empty ''light.desk''
   = Some \<lparr> brightness = Fin 180, color = ''#ffffff'', colorTemp = Fin 300 \<rparr>"
    using bootstrap_fallback_defaults
      [where e = "\<lparr> entity_id = ''light.desk'', state = ''on'',
          attributes = noAttributes(''brightness'' := JStr ''not-a-number'') \<rparr>"
         and pre = "[]" and post = "[]" and prevL = Map.empty]
    by (simp add: seedLight_def noAttributes_def prefix_def not_a_number_malformed
        numeric_undefined)
  have fields: "climateControlsUpdater
     [\<lparr> entity_id = ''climate.hall'', state = ''heat'',
        attributes = noAttributes(''current_temperature'' := JNum (Fin (43 / 2))) \<rparr>]
     Map.empty ''climate.hall''
     = Some (seedClimate \<lparr> entity_id = ''climate.hall'', state = ''heat'',
        attributes = noAttributes(''current_temperature'' := JNum (Fin (43 / 2))) \<rparr>)"
    "temperature (seedClimate \<lparr> entity_id = ''climate.hall'', state = ''heat'',
        attributes = noAttributes(''current_temperature'' := JNum (Fin (43 / 2))) \<rparr>)
     = Fin (43 / 2)"
    "hvacMode (seedClimate \<lparr> entity_id = ''climate.hall'', state = ''heat'',
        attributes = noAttributes(''current_temperature'' := JNum (Fin (43 / 2))) \<rparr>)
     = ''auto''"
    using bootstrap_fallback_defaults
      [where e = "\<lparr> entity_id = ''climate.hall'', state = ''heat'',
          attributes = noAttributes(''current_temperature'' := JNum (Fin (43 / 2))) \<rparr>"
         and pre = "[]" and post = "[]" and prevC = Map.empty and n = "Fin (43 / 2)"]
    by (simp_all add: noAttributes_def prefix_def numeric_undefined)
  have climate: "climateControlsUpdater
     [\<lparr> entity_id = ''climate.hall'', state = ''heat'',
        attributes = noAttributes(''current_temperature'' := JNum (Fin (43 / 2))) \<rparr>]
     Map.empty ''climate.hall''
   = Some \<lparr> temperature = Fin (43 / 2), hvacMode = ''auto'' \<rparr>"
    using fields(2,3)
    by (cases "seedClimate \<lparr> entity_id = ''climate.hall'', state = ''heat'',
        attributes = noAttributes(''current_temperature'' := JNum (Fin (43 / 2))) \<rparr>")
      (simp add: fields(1))
  have parsed: "temperature (seedClimate \<lparr> entity_id = ''climate.hall'', state = ''heat'',
        attributes = noAttributes(''temperature'' := JStr ''not-a-number'',
                                  ''current_temperature'' := JStr '' 21.5 '') \<rparr>)
     = Fin (43 / 2)"
    using bootstrap_fallback_defaults
      [where e = "\<lparr> entity_id = ''climate.hall'', state = ''heat'',
          attributes = noAttributes(''temperature'' := JStr ''not-a-number'',
                                    ''current_temperature'' := JStr '' 21.5 '') \<rparr>"
         and t = "'' 21.5 ''"]
    by (simp add: not_a_number_malformed number_padded trim_eval)
  have none: "temperature (seedClimate \<lparr> entity_id = ''climate.hall'', state = ''heat'',
        attributes = noAttributes \<rparr>)
     = Fin 22"
    using bootstrap_fallback_defaults
      [where e = "\<lparr> entity_id = ''climate.hall'', state = ''heat'',
          attributes = noAttributes \<rparr>"]
    by (simp add: noAttributes_def numeric_undefined)
  from light climate parsed none show ?thesis by (intro conjI)
qed

section \<open>Properties of the settings lock\<close>

lemma hexDigit_inj: "a < 16 \<Longrightarrow> b < 16 \<Longrightarrow> hexDigit a = hexDigit b \<Longrightarrow> a = b"
proof -
  assume a: "a < 16" and b: "b < 16" and eq: "hexDigit a = hexDigit b"
  have d: "distinct ''0123456789abcdef''" by simp
  have "''0123456789abcdef'' ! a = ''0123456789abcdef'' ! b"
    using eq a b by (simp add: hexDigit_def)
  then show "a = b"
    using d a b nth_eq_iff_index_eq [of "''0123456789abcdef''" a b] by simp
qed

lemma unat_byte: "unat (a :: 8 word) < 256"
  using unsigned_less [of a, where ?'a = nat] by simp

lemma byteToHex_digits:
  "byteToHex a = [hexDigit (unat a div 16), hexDigit (unat a mod 16)]"
  unfolding byteToHex_def toString16_nat by (rule hexNat_byte [OF unat_byte])

lemma byteToHex_inj: "byteToHex a = byteToHex b \<Longrightarrow> a = b"
proof -
  assume eq: "byteToHex a = byteToHex b"
  have la: "unat a div 16 < 16" and lb: "unat b div 16 < 16"
    using unat_byte [of a] unat_byte [of b] by simp_all
  from eq have "hexDigit (unat a div 16) = hexDigit (unat b div 16)"
    and "hexDigit (unat a mod 16) = hexDigit (unat b mod 16)"
    by (simp_all add: byteToHex_digits)
  then have d: "unat a div 16 = unat b div 16" and m: "unat a mod 16 = unat b mod 16"
    using la lb by (auto intro: hexDigit_inj)
  have "unat a = 16 * (unat a div 16) + unat a mod 16" by simp
  also have "\<dots> = 16 * (unat b div 16) + unat b mod 16" using d m by simp
  also have "\<dots> = unat b" by simp
  finally show "a = b" by (rule word_unat_eq_iff [THEN iffD2])
qed

lemma concat_byteToHex_inj:
  "concat (map byteToHex xs) = concat (map byteToHex ys) \<Longrightarrow> xs = ys"
proof (induction xs arbitrary: ys)
  case Nil
  then show ?case by (cases ys) (simp_all add: byteToHex_digits)
next
  case step: (Cons x xs')
  show ?case
  proof (cases ys)
    case Nil
    then show ?thesis using step.prems by (simp add: byteToHex_digits)
  next
    case (Cons y ys')
    have lx: "length (byteToHex x) = length (byteToHex y)"
      by (simp add: byteToHex_digits)
    from step.prems Cons
    have "byteToHex x @ concat (map byteToHex xs')
          = byteToHex y @ concat (map byteToHex ys')"
      by simp
    then have h: "byteToHex x = byteToHex y"
      and t: "concat (map byteToHex xs') = concat (map byteToHex ys')"
      using lx by simp_all
    from h have "x = y" by (rule byteToHex_inj)
    moreover from t have "xs' = ys'" by (rule step.IH)
    ultimately show ?thesis using Cons by simp
  qed
qed

lemma hashValue_inj: "hashValue sha256 a = hashValue sha256 b \<Longrightarrow>
  sha256 (encode a) = sha256 (encode b)"
  unfolding hashValue_def by (rule concat_byteToHex_inj)

lemma hashValue_empty: "hashValue sha256 a = [] \<Longrightarrow> sha256 (encode a) = []"
  using concat_byteToHex_inj [of "sha256 (encode a)" "[]"]
  by (simp add: hashValue_def)

lemma hashValue_lowercase_hex:
  "set (hashValue sha256 v) \<subseteq> set ''0123456789abcdef''
   \<and> length (hashValue sha256 v) = 2 * length (sha256 (encode v))"
proof -
  have digit: "hexDigit n \<in> set ''0123456789abcdef''" for n
    unfolding hexDigit_def by (rule nth_mem) simp
  have one: "set (byteToHex byte) \<subseteq> set ''0123456789abcdef''" for byte
    using digit [of "unat byte div 16"] digit [of "unat byte mod 16"]
    unfolding byteToHex_digits by simp
  have len: "length (concat (map byteToHex bs)) = 2 * length bs" for bs
    by (induction bs) (simp_all add: byteToHex_digits)
  have "set (concat (map byteToHex bs)) \<subseteq> set ''0123456789abcdef''" for bs
    using one by (induction bs) simp_all
  then show ?thesis
    using len by (simp add: hashValue_def)
qed

lemma attempt_wrong_digest:
  "passwordHash p \<noteq> [] \<Longrightarrow> hashValue sha256 q \<noteq> passwordHash p \<Longrightarrow>
   settingsUnlocked (attempt sha256 q p) = settingsUnlocked p
   \<and> settingsError (attempt sha256 q p) = ''Incorrect password.''"
  by (simp add: attempt_def handleUnlock_def)

lemma attempt_right_digest:
  "passwordHash p \<noteq> [] \<Longrightarrow> hashValue sha256 q = passwordHash p \<Longrightarrow>
   settingsUnlocked (attempt sha256 q p) \<and> settingsError (attempt sha256 q p) = []"
  by (simp add: attempt_def handleUnlock_def)

lemma setPassword_stores_trimmed:
  "passwordHash p = [] \<Longrightarrow> trim pw \<noteq> [] \<Longrightarrow>
   passwordHash (setPassword sha256 pw p) = hashValue sha256 (trim pw)
   \<and> settingsUnlocked (setPassword sha256 pw p)"
  by (simp add: setPassword_def handleUnlock_def)

lemma handleLock_locks:
  "passwordHash (handleLock p) = passwordHash p \<and> \<not> settingsUnlocked (handleLock p)"
  by (simp add: handleLock_def)

text \<open>
  Claim C6. The claim holds for the two operations that store a hash (\<open>handleUnlock\<close>
  with no hash stored, and \<open>updatePassword\<close>): both digest the trimmed password. The
  verification branch of \<open>handleUnlock\<close> digests \<open>passwordInput\<close> as typed, without
  \<open>trim\<close>. So after set-password with \<open>" abc "\<close> the stored hash is that of \<open>"abc"\<close>, and
  an attempt with the same string \<open>" abc "\<close> is rejected, for every digest function that
  gives \<open>"abc"\<close> a non-empty digest different from that of \<open>" abc "\<close>, as SHA-256 does.
\<close>

theorem same_password_rejected:
  assumes "passwordHash p = []"
    and "sha256 (encode ''abc'') \<noteq> []"
    and "sha256 (encode '' abc '') \<noteq> sha256 (encode ''abc'')"
  shows "passwordHash (setPassword sha256 '' abc '' p) = hashValue sha256 ''abc''
    \<and> settingsUnlocked (setPassword sha256 '' abc '' p)
    \<and> \<not> settingsUnlocked (attempt sha256 '' abc '' (handleLock (setPassword sha256 '' abc '' p)))
    \<and> settingsError (attempt sha256 '' abc '' (handleLock (setPassword sha256 '' abc '' p)))
        = ''Incorrect password.''"
proof -
  have t: "trim '' abc '' = ''abc''"
    by (simp add: trim_eval)
  have stored: "passwordHash (setPassword sha256 '' abc '' p) = hashValue sha256 ''abc''"
    and unlocked: "settingsUnlocked (setPassword sha256 '' abc '' p)"
    using setPassword_stores_trimmed [OF assms(1), of "'' abc ''" sha256] t by simp_all
  have nonempty: "hashValue sha256 ''abc'' \<noteq> []"
    using assms(2) hashValue_empty by blast
  have differ: "hashValue sha256 '' abc '' \<noteq> hashValue sha256 ''abc''"
    using assms(3) hashValue_inj by blast
  have locked: "passwordHash (handleLock (setPassword sha256 '' abc '' p)) = hashValue sha256 ''abc''"
    and l2: "\<not> settingsUnlocked (handleLock (setPassword sha256 '' abc '' p))"
    using stored handleLock_locks by simp_all
  have "settingsUnlocked (attempt sha256 '' abc '' (handleLock (setPassword sha256 '' abc '' p)))
          = settingsUnlocked (handleLock (setPassword sha256 '' abc '' p))
        \<and> settingsError (attempt sha256 '' abc '' (handleLock (setPassword sha256 '' abc '' p)))
          = ''Incorrect password.''"
    by (rule attempt_wrong_digest) (simp_all only: locked nonempty differ not_False_eq_True)
  then show ?thesis
    using stored unlocked l2 by simp
qed

theorem same_password_rejected_witness:
  "passwordHash (initialPanel [] []) = []
   \<and> echoDigest (encode ''abc'') \<noteq> []
   \<and> echoDigest (encode '' abc '') \<noteq> echoDigest (encode ''abc'')
   \<and> \<not> settingsUnlocked
        (attempt echoDigest '' abc ''
          (handleLock (setPassword echoDigest '' abc '' (initialPanel [] []))))
   \<and> settingsError
        (attempt echoDigest '' abc ''
          (handleLock (setPassword echoDigest '' abc '' (initialPanel [] []))))
      = ''Incorrect password.''"
proof -
  have h1: "passwordHash (initialPanel [] []) = []"
    by (simp add: initialPanel_def)
  have h2: "echoDigest (encode ''abc'') \<noteq> []"
    by (simp add: echoDigest_def encode_def)
  have "length (echoDigest (encode '' abc '')) \<noteq> length (echoDigest (encode ''abc''))"
    by (simp add: echoDigest_def encode_def)
  then have h3: "echoDigest (encode '' abc '') \<noteq> echoDigest (encode ''abc'')"
    by auto
  from same_password_rejected [OF h1 h2 h3] h1 h2 h3 show ?thesis
    by blast
qed

section \<open>Properties of the persistence gate\<close>

lemma flushes_Nil: "flushes [] = []"
  by (simp add: flushes_def)

lemma flushes_append: "flushes (a @ b) = flushes a @ flushes b"
  by (simp add: flushes_def)

lemma persist_guard:
  "\<not> connectionReady envProxy c \<or> \<not> settingsLoaded c \<Longrightarrow>
   persistPanelSettings envProxy c nxt outcome = ([], Inr ())"
  by (auto simp: persistPanelSettings_def)

lemma apiFetch_sends:
  "fst (apiFetch envProxy c path meth payload outcome)
     = (if token c = [] \<or> (\<not> envProxy \<and> haUrl c = []) then []
        else [\<lparr> req_method = meth,
                req_url = (if envProxy then [] else stripTrailingSlash (haUrl c)) @ ''/api'' @ path,
                req_authorization = ''Bearer '' @ token c,
                req_body = payload \<rparr>])"
  by (simp add: apiFetch_def Let_def)

lemma persist_sends:
  "connectionReady envProxy c \<Longrightarrow> settingsLoaded c \<Longrightarrow>
   fst (persistPanelSettings envProxy c nxt outcome)
     = [\<lparr> req_method = ''PUT'',
          req_url = (if envProxy then [] else stripTrailingSlash (haUrl c)) @ ''/api''
                      @ settingsApiPath,
          req_authorization = ''Bearer '' @ token c,
          req_body = Some (payloadOf c nxt) \<rparr>]"
  by (simp add: persistPanelSettings_def apiFetch_sends connectionReady_def)

lemma persist_credentialed:
  "list_all (credentialed envProxy) (flushes (fst (persistPanelSettings envProxy c noPatch outcome)))"
proof (cases "connectionReady envProxy c \<and> settingsLoaded c")
  case True
  then have "fst (persistPanelSettings envProxy c noPatch outcome)
     = [\<lparr> req_method = ''PUT'',
          req_url = (if envProxy then [] else stripTrailingSlash (haUrl c)) @ ''/api''
                      @ settingsApiPath,
          req_authorization = ''Bearer '' @ token c,
          req_body = Some (payloadOf c noPatch) \<rparr>]"
    by (simp add: persist_sends)
  moreover have "doc_haToken (payloadOf c noPatch) = token c"
    and "doc_haUrl (payloadOf c noPatch) = haUrl c"
    by (simp_all add: payloadOf_def noPatch_def orElse_def)
  ultimately show ?thesis
    using True by (simp add: flushes_def credentialed_def connectionReady_def)
next
  case False
  then have "persistPanelSettings envProxy c noPatch outcome = ([], Inr ())"
    by (intro persist_guard) blast
  then show ?thesis
    by (simp add: flushes_def)
qed

lemma load_sends:
  "fst (loadPanelSettings envProxy c outcome p)
     = (if \<not> connectionReady envProxy c then []
        else fst (apiFetch envProxy c settingsApiPath ''GET'' None outcome))"
  by (simp add: loadPanelSettings_def Let_def split: prod.splits sum.splits)

lemma load_no_flush: "flushes (fst (loadPanelSettings envProxy c outcome p)) = []"
  by (simp add: load_sends apiFetch_sends flushes_def)

lemma load_not_loaded:
  "\<not> settingsLoaded (snd (loadPanelSettings envProxy c outcome p)) \<Longrightarrow> \<not> settingsLoaded p"
  by (simp add: loadPanelSettings_def Let_def split: prod.splits sum.splits if_splits)


lemma mutate_settingsLoaded: "settingsLoaded (mutate m p) = settingsLoaded p"
  by (cases m) simp_all

lemma saveDebounceEffect_cases:
  "saveDebounceEffect envProxy p pending = Some c \<Longrightarrow>
   pending = Some c \<or> (c = p \<and> connectionReady envProxy p \<and> settingsLoaded p)"
  by (auto simp: saveDebounceEffect_def split: if_splits)

lemma saveDebounceEffect_not_loaded:
  "\<not> settingsLoaded p \<Longrightarrow> saveDebounceEffect envProxy p pending = pending"
  by (simp add: saveDebounceEffect_def)

lemma gateInvariantI:
  assumes "\<not> settingsLoaded (panel w) \<Longrightarrow> saveDebounceRef w = None"
    and "\<not> settingsLoaded (panel w) \<Longrightarrow> flushes (requests w) = []"
    and "\<And>c. saveDebounceRef w = Some c \<Longrightarrow> connectionReady envProxy c \<and> settingsLoaded c"
    and "list_all (credentialed envProxy) (flushes (requests w))"
  shows "gateInvariant envProxy w"
  using assms unfolding gateInvariant_def by blast

lemma gateInvariant_timer:
  "gateInvariant envProxy w \<Longrightarrow> \<not> settingsLoaded (panel w) \<Longrightarrow> saveDebounceRef w = None"
  unfolding gateInvariant_def by blast

lemma gateInvariant_flushes:
  "gateInvariant envProxy w \<Longrightarrow> \<not> settingsLoaded (panel w) \<Longrightarrow> flushes (requests w) = []"
  unfolding gateInvariant_def by blast

lemma gateInvariant_closure:
  "gateInvariant envProxy w \<Longrightarrow> saveDebounceRef w = Some c \<Longrightarrow>
   connectionReady envProxy c \<and> settingsLoaded c"
  unfolding gateInvariant_def by blast

lemma gateInvariant_credentialed:
  "gateInvariant envProxy w \<Longrightarrow> list_all (credentialed envProxy) (flushes (requests w))"
  unfolding gateInvariant_def by blast

lemma step_Mutate_fields:
  "panel (step envProxy w (Mutate m)) = mutate m (panel w)"
  "saveDebounceRef (step envProxy w (Mutate m))
     = saveDebounceEffect envProxy (mutate m (panel w)) (saveDebounceRef w)"
  "requests (step envProxy w (Mutate m)) = requests w"
  by (simp_all add: Let_def)

lemma step_SaveTimerFires_fields:
  "panel (step envProxy w (SaveTimerFires outcome)) = panel w"
  "saveDebounceRef (step envProxy w (SaveTimerFires outcome)) = None"
  "requests (step envProxy w (SaveTimerFires outcome))
     = requests w @ (case saveDebounceRef w of
                       None \<Rightarrow> []
                     | Some c \<Rightarrow> fst (persistPanelSettings envProxy c noPatch outcome))"
  by (cases "saveDebounceRef w"; simp)+

lemma step_LoadSettings_fields:
  "panel (step envProxy w (LoadSettings c outcome))
     = snd (loadPanelSettings envProxy c outcome (panel w))"
  "saveDebounceRef (step envProxy w (LoadSettings c outcome))
     = saveDebounceEffect envProxy (snd (loadPanelSettings envProxy c outcome (panel w)))
         (saveDebounceRef w)"
  "requests (step envProxy w (LoadSettings c outcome))
     = requests w @ fst (loadPanelSettings envProxy c outcome (panel w))"
  by (simp_all add: Let_def split: prod.splits)

declare step.simps [simp del]

lemma gateInvariant_step:
  assumes inv: "gateInvariant envProxy w"
  shows "gateInvariant envProxy (step envProxy w e)"
proof (cases e)
  case (Mutate m)
  show ?thesis
    unfolding Mutate
  proof (rule gateInvariantI)
    assume "\<not> settingsLoaded (panel (step envProxy w (Mutate m)))"
    then have "\<not> settingsLoaded (panel w)"
      by (simp add: step_Mutate_fields mutate_settingsLoaded)
    then show "saveDebounceRef (step envProxy w (Mutate m)) = None"
      using gateInvariant_timer [OF inv]
      by (simp add: step_Mutate_fields saveDebounceEffect_not_loaded mutate_settingsLoaded)
  next
    assume "\<not> settingsLoaded (panel (step envProxy w (Mutate m)))"
    then have "\<not> settingsLoaded (panel w)"
      by (simp add: step_Mutate_fields mutate_settingsLoaded)
    then show "flushes (requests (step envProxy w (Mutate m))) = []"
      using gateInvariant_flushes [OF inv] by (simp add: step_Mutate_fields)
  next
    fix c
    assume "saveDebounceRef (step envProxy w (Mutate m)) = Some c"
    then have "saveDebounceEffect envProxy (mutate m (panel w)) (saveDebounceRef w) = Some c"
      by (simp add: step_Mutate_fields)
    then have "saveDebounceRef w = Some c
        \<or> (c = mutate m (panel w) \<and> connectionReady envProxy (mutate m (panel w))
            \<and> settingsLoaded (mutate m (panel w)))"
      by (rule saveDebounceEffect_cases)
    then show "connectionReady envProxy c \<and> settingsLoaded c"
      using gateInvariant_closure [OF inv] by blast
  next
    show "list_all (credentialed envProxy) (flushes (requests (step envProxy w (Mutate m))))"
      using gateInvariant_credentialed [OF inv] by (simp add: step_Mutate_fields)
  qed
next
  case (SaveTimerFires outcome)
  have sent: "list_all (credentialed envProxy)
      (flushes (case saveDebounceRef w of
                  None \<Rightarrow> []
                | Some c \<Rightarrow> fst (persistPanelSettings envProxy c noPatch outcome)))"
    by (cases "saveDebounceRef w") (simp_all add: persist_credentialed flushes_Nil)
  show ?thesis
    unfolding SaveTimerFires
  proof (rule gateInvariantI)
    show "saveDebounceRef (step envProxy w (SaveTimerFires outcome)) = None"
      by (simp add: step_SaveTimerFires_fields)
  next
    assume "\<not> settingsLoaded (panel (step envProxy w (SaveTimerFires outcome)))"
    then have nl: "\<not> settingsLoaded (panel w)"
      by (simp add: step_SaveTimerFires_fields)
    then have "saveDebounceRef w = None"
      by (rule gateInvariant_timer [OF inv])
    then show "flushes (requests (step envProxy w (SaveTimerFires outcome))) = []"
      using gateInvariant_flushes [OF inv nl] by (simp add: step_SaveTimerFires_fields)
  next
    fix c
    assume "saveDebounceRef (step envProxy w (SaveTimerFires outcome)) = Some c"
    then show "connectionReady envProxy c \<and> settingsLoaded c"
      by (simp add: step_SaveTimerFires_fields)
  next
    show "list_all (credentialed envProxy)
        (flushes (requests (step envProxy w (SaveTimerFires outcome))))"
      using gateInvariant_credentialed [OF inv] sent
      by (simp add: step_SaveTimerFires_fields flushes_append)
  qed
next
  case (LoadSettings c outcome)
  show ?thesis
    unfolding LoadSettings
  proof (rule gateInvariantI)
    assume "\<not> settingsLoaded (panel (step envProxy w (LoadSettings c outcome)))"
    then have nl': "\<not> settingsLoaded (snd (loadPanelSettings envProxy c outcome (panel w)))"
      by (simp add: step_LoadSettings_fields)
    then have nl: "\<not> settingsLoaded (panel w)"
      by (rule load_not_loaded)
    show "saveDebounceRef (step envProxy w (LoadSettings c outcome)) = None"
      using gateInvariant_timer [OF inv nl] nl'
      by (simp add: step_LoadSettings_fields saveDebounceEffect_not_loaded)
  next
    assume "\<not> settingsLoaded (panel (step envProxy w (LoadSettings c outcome)))"
    then have "\<not> settingsLoaded (snd (loadPanelSettings envProxy c outcome (panel w)))"
      by (simp add: step_LoadSettings_fields)
    then have nl: "\<not> settingsLoaded (panel w)"
      by (rule load_not_loaded)
    show "flushes (requests (step envProxy w (LoadSettings c outcome))) = []"
      using gateInvariant_flushes [OF inv nl]
      by (simp add: step_LoadSettings_fields flushes_append load_no_flush)
  next
    fix d
    assume "saveDebounceRef (step envProxy w (LoadSettings c outcome)) = Some d"
    then have "saveDebounceEffect envProxy
        (snd (loadPanelSettings envProxy c outcome (panel w))) (saveDebounceRef w) = Some d"
      by (simp add: step_LoadSettings_fields)
    then have "saveDebounceRef w = Some d
        \<or> (d = snd (loadPanelSettings envProxy c outcome (panel w))
            \<and> connectionReady envProxy (snd (loadPanelSettings envProxy c outcome (panel w)))
            \<and> settingsLoaded (snd (loadPanelSettings envProxy c outcome (panel w))))"
      by (rule saveDebounceEffect_cases)
    then show "connectionReady envProxy d \<and> settingsLoaded d"
      using gateInvariant_closure [OF inv] by blast
  next
    show "list_all (credentialed envProxy)
        (flushes (requests (step envProxy w (LoadSettings c outcome))))"
      using gateInvariant_credentialed [OF inv]
      by (simp add: step_LoadSettings_fields flushes_append load_no_flush)
  qed
qed

lemma gateInvariant_run:
  "gateInvariant envProxy w \<Longrightarrow> gateInvariant envProxy (run envProxy w events)"
  unfolding run_def
  by (induction events arbitrary: w) (simp_all add: gateInvariant_step)

lemma gateInvariant_initial: "gateInvariant envProxy (initialWorld envUrl envToken)"
  by (simp add: gateInvariant_def initialWorld_def initialPanel_def flushes_def)

text \<open>
  Claim C1. \<open>persistPanelSettings\<close> sends nothing when the render it closes over is not
  connected or has not loaded the settings. And in the event loop, started from the first
  render and driven by any sequence of mutations, timer firings and load completions: as
  long as no load has succeeded no flush has been sent, and every flush ever sent carries
  credentials.
\<close>

theorem no_flush_before_load:
  "(\<not> connectionReady envProxy c \<or> \<not> settingsLoaded c
      \<longrightarrow> fst (persistPanelSettings envProxy c nxt outcome) = [])
   \<and> (\<not> settingsLoaded (panel (run envProxy (initialWorld envUrl envToken) events))
      \<longrightarrow> flushes (requests (run envProxy (initialWorld envUrl envToken) events)) = [])
   \<and> list_all (credentialed envProxy)
        (flushes (requests (run envProxy (initialWorld envUrl envToken) events)))"
proof -
  have inv: "gateInvariant envProxy (run envProxy (initialWorld envUrl envToken) events)"
    by (rule gateInvariant_run) (rule gateInvariant_initial)
  have "\<not> connectionReady envProxy c \<or> \<not> settingsLoaded c
      \<longrightarrow> fst (persistPanelSettings envProxy c nxt outcome) = []"
    using persist_guard [of envProxy c nxt outcome] by simp
  then show ?thesis
    using gateInvariant_flushes [OF inv] gateInvariant_credentialed [OF inv] by blast
qed

lemmas gate_eval = run_def step.simps initialWorld_def initialPanel_def saveDebounceEffect_def
  connectionReady_def persistPanelSettings_def loadPanelSettings_def apiFetch_def
  flushes_def payloadOf_def noPatch_def noSettings_def orElse_def settingsApiPath_def
  stripTrailingSlash_def Let_def

theorem no_flush_before_load_witness:
  "\<not> connectionReady False (initialPanel [] [])
   \<and> fst (persistPanelSettings False (initialPanel [] []) noPatch (FetchRejects [])) = []
   \<and> \<not> settingsLoaded (panel (run False (initialWorld ''http://hub:8123'' ''tok'')
        [Mutate (SetHiddenEntities [''light.a'']),
         SaveTimerFires (FetchResponds 200 [] (Inr ())),
         LoadSettings (initialPanel ''http://hub:8123'' ''tok'') (FetchResponds 404 [] (Inl [])),
         Mutate (SetEntityOrder [''light.a'']),
         SaveTimerFires (FetchResponds 200 [] (Inr ()))]))
   \<and> flushes (requests (run False (initialWorld ''http://hub:8123'' ''tok'')
        [Mutate (SetHiddenEntities [''light.a'']),
         SaveTimerFires (FetchResponds 200 [] (Inr ())),
         LoadSettings (initialPanel ''http://hub:8123'' ''tok'') (FetchResponds 404 [] (Inl [])),
         Mutate (SetEntityOrder [''light.a'']),
         SaveTimerFires (FetchResponds 200 [] (Inr ()))])) = []"
proof -
  have h1: "\<not> connectionReady False (initialPanel [] [])"
    by (simp add: connectionReady_def initialPanel_def)
  have h2: "\<not> settingsLoaded (panel (run False (initialWorld ''http://hub:8123'' ''tok'')
        [Mutate (SetHiddenEntities [''light.a'']),
         SaveTimerFires (FetchResponds 200 [] (Inr ())),
         LoadSettings (initialPanel ''http://hub:8123'' ''tok'') (FetchResponds 404 [] (Inl [])),
         Mutate (SetEntityOrder [''light.a'']),
         SaveTimerFires (FetchResponds 200 [] (Inr ()))]))"
    by (simp add: gate_eval)
  from h1 h2 no_flush_before_load
    [where envProxy = False and c = "initialPanel [] []" and nxt = noPatch
       and outcome = "FetchRejects []" and envUrl = "''http://hub:8123''"
       and envToken = "''tok''"
       and events = "[Mutate (SetHiddenEntities [''light.a'']),
         SaveTimerFires (FetchResponds 200 [] (Inr ())),
         LoadSettings (initialPanel ''http://hub:8123'' ''tok'') (FetchResponds 404 [] (Inl [])),
         Mutate (SetEntityOrder [''light.a'']),
         SaveTimerFires (FetchResponds 200 [] (Inr ()))]"]
  show ?thesis by blast
qed

lemma flush_after_load:
  "map req_method (requests (run False (initialWorld ''http://hub:8123/'' ''tok'')
        [LoadSettings (initialPanel ''http://hub:8123/'' ''tok'')
           (FetchResponds 200 ''{}'' (Inr noSettings)),
         Mutate (SetHiddenEntities [''light.a'']),
         SaveTimerFires (FetchResponds 200 ''{}'' (Inr ()))]))
     = [''GET'', ''PUT'']
   \<and> map req_url (requests (run False (initialWorld ''http://hub:8123/'' ''tok'')
        [LoadSettings (initialPanel ''http://hub:8123/'' ''tok'')
           (FetchResponds 200 ''{}'' (Inr noSettings)),
         Mutate (SetHiddenEntities [''light.a'']),
         SaveTimerFires (FetchResponds 200 ''{}'' (Inr ()))]))
     = [''http://hub:8123/api/studio_panel/settings'',
        ''http://hub:8123/api/studio_panel/settings'']"
  by (simp add: gate_eval)

lemma load_failure_surfaced:
  "storageError (snd (loadPanelSettings False (initialPanel ''http://hub:8123'' ''tok'')
      (FetchResponds 500 ''Internal Server Error'' (Inl []))
      (initialPanel ''http://hub:8123'' ''tok''))) = ''Internal Server Error''"
  by (simp add: gate_eval)

text \<open>
  Claim C4. The settings are loaded, the user hides a device, the debounce timeout fires
  and the \<open>PUT\<close> is answered with status 500. The promise of \<open>persistPanelSettings\<close>
  rejects with the response text, but nothing catches it: \<open>storageError\<close> is still
  empty afterwards (the same failure of the load request is surfaced, by the \<open>catch\<close> of
  \<open>loadPanelSettings\<close>). The edit is kept, and the failure arms no timeout: none is pending
  afterwards. The next change of a persisted cell arms the next one, whether the user
  makes it or the order append after a poll does (\<open>SetEntityOrder\<close>).
\<close>

theorem flush_failure_not_surfaced:
  "snd (persistPanelSettings False
         ((initialPanel ''http://hub:8123'' ''tok'')
            \<lparr> hiddenEntities := [''light.a''], settingsLoaded := True \<rparr>)
         noPatch (FetchResponds 500 ''Internal Server Error'' (Inl [])))
     = Inl ''Internal Server Error''
   \<and> map req_method (requests (run False (initialWorld ''http://hub:8123'' ''tok'')
        [LoadSettings (initialPanel ''http://hub:8123'' ''tok'')
           (FetchResponds 200 ''{}'' (Inr noSettings)),
         Mutate (SetHiddenEntities [''light.a'']),
         SaveTimerFires (FetchResponds 500 ''Internal Server Error'' (Inl []))]))
     = [''GET'', ''PUT'']
   \<and> storageError (panel (run False (initialWorld ''http://hub:8123'' ''tok'')
        [LoadSettings (initialPanel ''http://hub:8123'' ''tok'')
           (FetchResponds 200 ''{}'' (Inr noSettings)),
         Mutate (SetHiddenEntities [''light.a'']),
         SaveTimerFires (FetchResponds 500 ''Internal Server Error'' (Inl []))])) = []
   \<and> hiddenEntities (panel (run False (initialWorld ''http://hub:8123'' ''tok'')
        [LoadSettings (initialPanel ''http://hub:8123'' ''tok'')
           (FetchResponds 200 ''{}'' (Inr noSettings)),
         Mutate (SetHiddenEntities [''light.a'']),
         SaveTimerFires (FetchResponds 500 ''Internal Server Error'' (Inl []))]))
     = [''light.a'']
   \<and> saveDebounceRef (run False (initialWorld ''http://hub:8123'' ''tok'')
        [LoadSettings (initialPanel ''http://hub:8123'' ''tok'')
           (FetchResponds 200 ''{}'' (Inr noSettings)),
         Mutate (SetHiddenEntities [''light.a'']),
         SaveTimerFires (FetchResponds 500 ''Internal Server Error'' (Inl []))]) = None"
  by (simp add: gate_eval)

theorem flush_failure_not_surfaced_witness:
  "storageError (panel (run False (initialWorld ''http://hub:8123'' ''tok'')
        [LoadSettings (initialPanel ''http://hub:8123'' ''tok'')
           (FetchResponds 200 ''{}'' (Inr noSettings)),
         Mutate (SetHiddenEntities [''light.a'']),
         SaveTimerFires (FetchResponds 500 ''Internal Server Error'' (Inl []))])) = []"
  using flush_failure_not_surfaced by blast

section \<open>Properties of the ordering\<close>


lemma byteCompare_antisym: "byteCompare a b \<le> 0 \<Longrightarrow> byteCompare b a \<le> 0 \<Longrightarrow> a = b"
proof (induction a b rule: byteCompare.induct)
  case (4 x xs y ys)
  from "4.prems" have eq: "(of_char x :: nat) = of_char y"
    by (auto split: if_splits)
  then have "x = y" by simp
  moreover from "4.prems" eq have "byteCompare xs ys \<le> 0" and "byteCompare ys xs \<le> 0"
    by simp_all
  ultimately show ?case using "4.IH" eq by simp
qed simp_all







subsection \<open>The order index\<close>





subsection \<open>The comparator\<close>





subsection \<open>The stable sort\<close>








subsection \<open>The resolved order\<close>











end
